theory Spec2Isabelle
  imports Complex_Main
begin

section \<open>JavaScript values\<close>

text \<open>
  The adapter \<^verbatim>\<open>js/gateio.js\<close> works on loosely typed JSON payloads, so the embedding is
  dynamically typed as well: every value is a \<open>jsval\<close>, an object is the list of its own
  properties, each key once, in property order, and \<^verbatim>\<open>undefined\<close> is a value of its own.
  Property order is the order of insertion: the keys of the records and tables here are
  names, not array indices, which the language would list first.

  A number is a \<open>jsnum\<close>: an exact rational, \<^verbatim>\<open>Infinity\<close>, \<^verbatim>\<open>-Infinity\<close> or \<^verbatim>\<open>NaN\<close>.
  The rounding of IEEE doubles and the sign of zero are not modelled: arithmetic on finite
  values is exact, and a division by zero gives the infinity that \<^verbatim>\<open>x / +0\<close> gives.

  An object also inherits the properties of \<^verbatim>\<open>Object.prototype\<close>, and an array those of
  \<^verbatim>\<open>Array.prototype\<close> before them. What is inherited is a value of the language itself, a
  function such as \<^verbatim>\<open>Object.prototype.toString\<close>: \<open>Builtin p\<close> is that value, named by the path
  \<open>p\<close> that reaches it. A built-in is an object in its own right; the properties of its own
  are not modelled, only those it inherits like every object.
\<close>

datatype jsnum = Fin rat | PInf | NInf | NaN

datatype jsval =
    Undefined
  | Null
  | Bool bool
  | Num jsnum
  | Str string
  | Arr "jsval list"
  | Obj "(string \<times> jsval) list"
  | Builtin string

text \<open>
  The error classes of \<^verbatim>\<open>./base/errors\<close> that the adapter imports or that the base class
  raises on its behalf, each with its message, and the two errors of the language itself.
  \<open>Thrown v\<close> is a thrown value that is no error at all: the object that
  \<^verbatim>\<open>throw new Object (v)\<close> throws, which is \<open>v\<close> itself when \<open>v\<close> is an object and the object
  wrapping \<open>v\<close> when \<open>v\<close> is a primitive.
\<close>

datatype error =
    ExchangeError string
  | InvalidAddress string
  | OrderNotFound string
  | NotSupported string
  | DDoSProtection string
  | InsufficientFunds string
  | AuthenticationError string
  | TypeError
  | SyntaxError
  | Thrown jsval

subsection \<open>Arithmetic\<close>

fun js_neg :: "jsnum \<Rightarrow> jsnum" where
  "js_neg (Fin a) = Fin (- a)"
| "js_neg PInf = NInf"
| "js_neg NInf = PInf"
| "js_neg NaN = NaN"

fun js_add :: "jsnum \<Rightarrow> jsnum \<Rightarrow> jsnum" where
  "js_add NaN y = NaN"
| "js_add x NaN = NaN"
| "js_add (Fin a) (Fin b) = Fin (a + b)"
| "js_add PInf NInf = NaN"
| "js_add NInf PInf = NaN"
| "js_add PInf y = PInf"
| "js_add x PInf = PInf"
| "js_add NInf y = NInf"
| "js_add x NInf = NInf"

definition js_sub :: "jsnum \<Rightarrow> jsnum \<Rightarrow> jsnum" where
  "js_sub x y = js_add x (js_neg y)"

fun js_mul :: "jsnum \<Rightarrow> jsnum \<Rightarrow> jsnum" where
  "js_mul NaN y = NaN"
| "js_mul x NaN = NaN"
| "js_mul (Fin a) (Fin b) = Fin (a * b)"
| "js_mul (Fin a) PInf = (if a = 0 then NaN else if 0 < a then PInf else NInf)"
| "js_mul (Fin a) NInf = (if a = 0 then NaN else if 0 < a then NInf else PInf)"
| "js_mul PInf (Fin b) = (if b = 0 then NaN else if 0 < b then PInf else NInf)"
| "js_mul NInf (Fin b) = (if b = 0 then NaN else if 0 < b then NInf else PInf)"
| "js_mul PInf PInf = PInf"
| "js_mul PInf NInf = NInf"
| "js_mul NInf PInf = NInf"
| "js_mul NInf NInf = PInf"

fun js_div :: "jsnum \<Rightarrow> jsnum \<Rightarrow> jsnum" where
  "js_div NaN y = NaN"
| "js_div x NaN = NaN"
| "js_div (Fin a) (Fin b) =
     (if b \<noteq> 0 then Fin (a / b) else if a = 0 then NaN else if 0 < a then PInf else NInf)"
| "js_div (Fin a) PInf = Fin 0"
| "js_div (Fin a) NInf = Fin 0"
| "js_div PInf (Fin b) = (if 0 \<le> b then PInf else NInf)"
| "js_div NInf (Fin b) = (if 0 \<le> b then NInf else PInf)"
| "js_div PInf PInf = NaN"
| "js_div PInf NInf = NaN"
| "js_div NInf PInf = NaN"
| "js_div NInf NInf = NaN"

text \<open>\<^verbatim>\<open>Number.isFinite\<close>, on a number.\<close>

fun isFinite :: "jsnum \<Rightarrow> bool" where
  "isFinite (Fin a) = True"
| "isFinite PInf = False"
| "isFinite NInf = False"
| "isFinite NaN = False"

subsection \<open>What the adapter calls and does not define\<close>

text \<open>
  The adapter extends \<^verbatim>\<open>./base/Exchange\<close> and runs on the language's builtins; neither is
  part of \<^verbatim>\<open>js/gateio.js\<close>. Whatever the adapter only calls is a field of the record
  \<open>host\<close>, so that every theorem below holds for every such collaborator:
  the conversions of the language on strings and objects, \<^verbatim>\<open>JSON.parse\<close> (\<open>None\<close>: it
  throws a SyntaxError), \<^verbatim>\<open>Math.pow\<close> outside integral exponents, the methods of the base
  class, the clock, the credentials, the registries that \<^verbatim>\<open>loadMarkets\<close> fills, and
  the implicit API methods that perform the HTTP calls (\<open>Inl\<close>: the call raised).
\<close>

record host =
  ToNumber_other :: "jsval \<Rightarrow> jsnum"
  ToString_other :: "jsval \<Rightarrow> string"
  parseFloat_str :: "string \<Rightarrow> jsnum"
  parseInt10 :: "jsval \<Rightarrow> jsnum"
  Math_pow_other :: "jsnum \<Rightarrow> jsnum \<Rightarrow> jsnum"
  JSON_parse :: "string \<Rightarrow> jsval option"
  commonCurrencyCode :: "string \<Rightarrow> string"
  parse8601 :: "jsval \<Rightarrow> jsval"
  iso8601 :: "jsval \<Rightarrow> jsval"
  milliseconds :: "jsval"
  nonce :: "jsval"
  apiKey :: "jsval"
  secret :: "jsval"
  currencies :: "jsval"
  currency :: "jsval \<Rightarrow> error + jsval"
  market :: "jsval \<Rightarrow> error + jsval"
  loadMarkets :: "error + unit"
  parseBalance :: "jsval \<Rightarrow> jsval"
  parseTrades :: "jsval \<Rightarrow> jsval \<Rightarrow> jsval \<Rightarrow> jsval \<Rightarrow> error + jsval"
  implodeParams :: "string \<Rightarrow> jsval \<Rightarrow> string"
  extractParams :: "string \<Rightarrow> string list"
  urlencode :: "jsval \<Rightarrow> string"
  hmac :: "string \<Rightarrow> jsval \<Rightarrow> string \<Rightarrow> string"
  publicGetMarketinfo :: "error + jsval"
  privatePostBalances :: "error + jsval"
  privatePostDepositAddress :: "jsval \<Rightarrow> error + jsval"
  privatePostNewAddress :: "jsval \<Rightarrow> error + jsval"
  privatePostTradeHistory :: "jsval \<Rightarrow> error + jsval"

subsection \<open>Conversions and operators of the language\<close>

text \<open>\<^verbatim>\<open>ToNumber\<close>, the conversion behind unary \<^verbatim>\<open>+\<close>, \<^verbatim>\<open>-\<close>, \<^verbatim>\<open>*\<close> and \<^verbatim>\<open>/\<close>.\<close>

fun ToNumber :: "host \<Rightarrow> jsval \<Rightarrow> jsnum" where
  "ToNumber h Undefined = NaN"
| "ToNumber h Null = Fin 0"
| "ToNumber h (Bool b) = Fin (if b then 1 else 0)"
| "ToNumber h (Num n) = n"
| "ToNumber h v = ToNumber_other h v"

text \<open>
  \<^verbatim>\<open>ToString\<close>, the conversion behind \<^verbatim>\<open>String (x)\<close> and string concatenation: fixed by the
  language on strings, booleans, \<^verbatim>\<open>undefined\<close> and \<^verbatim>\<open>null\<close>, the host's on numbers (whose
  digits depend on the double) and on objects.
\<close>

fun ToString :: "host \<Rightarrow> jsval \<Rightarrow> string" where
  "ToString h (Str s) = s"
| "ToString h (Bool b) = (if b then ''true'' else ''false'')"
| "ToString h Undefined = ''undefined''"
| "ToString h Null = ''null''"
| "ToString h v = ToString_other h v"

text \<open>The truth value of a condition: \<^verbatim>\<open>if (x)\<close>, \<^verbatim>\<open>!x\<close>, \<^verbatim>\<open>x ? a : b\<close>.\<close>

fun truthy :: "jsval \<Rightarrow> bool" where
  "truthy Undefined = False"
| "truthy Null = False"
| "truthy (Bool b) = b"
| "truthy (Num n) = (n \<noteq> Fin 0 \<and> n \<noteq> NaN)"
| "truthy (Str s) = (s \<noteq> [])"
| "truthy (Arr xs) = True"
| "truthy (Obj kvs) = True"
| "truthy (Builtin p) = True"

definition js_minus :: "host \<Rightarrow> jsval \<Rightarrow> jsval \<Rightarrow> jsval" where
  "js_minus h x y = Num (js_sub (ToNumber h x) (ToNumber h y))"

definition js_times :: "host \<Rightarrow> jsval \<Rightarrow> jsval \<Rightarrow> jsval" where
  "js_times h x y = Num (js_mul (ToNumber h x) (ToNumber h y))"

definition js_over :: "host \<Rightarrow> jsval \<Rightarrow> jsval \<Rightarrow> jsval" where
  "js_over h x y = Num (js_div (ToNumber h x) (ToNumber h y))"

definition js_negate :: "host \<Rightarrow> jsval \<Rightarrow> jsval" where
  "js_negate h x = Num (js_neg (ToNumber h x))"

text \<open>
  Binary \<^verbatim>\<open>+\<close>: concatenation as soon as one operand is a string (or an object or array,
  whose primitive is a string), addition of numbers otherwise.
\<close>

fun stringish :: "jsval \<Rightarrow> bool" where
  "stringish (Str s) = True"
| "stringish (Arr xs) = True"
| "stringish (Obj kvs) = True"
| "stringish (Builtin p) = True"
| "stringish v = False"

definition js_plus :: "host \<Rightarrow> jsval \<Rightarrow> jsval \<Rightarrow> jsval" where
  "js_plus h x y =
     (if stringish x \<or> stringish y then Str (ToString h x @ ToString h y)
      else Num (js_add (ToNumber h x) (ToNumber h y)))"

text \<open>
  \<^verbatim>\<open>Math.pow\<close>: exact for a non-zero finite base and an integral exponent, the host's
  otherwise (the result may be irrational, infinite or \<^verbatim>\<open>NaN\<close>).
\<close>

definition Math_pow :: "host \<Rightarrow> jsval \<Rightarrow> jsval \<Rightarrow> jsval" where
  "Math_pow h x y =
     (case (ToNumber h x, ToNumber h y) of
        (Fin b, Fin e) \<Rightarrow>
          if b \<noteq> 0 \<and> of_int \<lfloor>e\<rfloor> = e then Num (Fin (b powi \<lfloor>e\<rfloor>))
          else Num (Math_pow_other h (Fin b) (Fin e))
      | (b, e) \<Rightarrow> Num (Math_pow_other h b e))"

text \<open>\<^verbatim>\<open>parseFloat\<close>: a number is returned as it is, anything else is read as a string.\<close>

fun js_parseFloat :: "host \<Rightarrow> jsval \<Rightarrow> jsval" where
  "js_parseFloat h (Num n) = Num n"
| "js_parseFloat h v = Num (parseFloat_str h (ToString h v))"

subsection \<open>Properties\<close>

text \<open>The array index a property key denotes: a decimal numeral without leading zeros.\<close>

definition digit_of :: "char \<Rightarrow> nat option" where
  "digit_of c =
     (let n = (of_char c :: nat) in if 48 \<le> n \<and> n \<le> 57 then Some (n - 48) else None)"

fun digits_value :: "string \<Rightarrow> nat \<Rightarrow> nat option" where
  "digits_value [] acc = Some acc"
| "digits_value (c # cs) acc =
     (case digit_of c of None \<Rightarrow> None | Some d \<Rightarrow> digits_value cs (10 * acc + d))"

definition index_of_key :: "string \<Rightarrow> nat option" where
  "index_of_key k =
     (case k of
        [] \<Rightarrow> None
      | c # cs \<Rightarrow> if c = CHR ''0'' \<and> cs \<noteq> [] then None else digits_value k 0)"

text \<open>And the key an index is written as.\<close>

fun index_key :: "nat \<Rightarrow> string" where
  "index_key i =
     (let last_digit = char_of (i mod 10 + 48)
      in if i div 10 = 0 then [last_digit] else index_key (i div 10) @ [last_digit])"

definition indexed :: "jsval list \<Rightarrow> string \<Rightarrow> jsval option" where
  "indexed xs k =
     (if k = ''length'' then Some (Num (Fin (of_nat (length xs))))
      else case index_of_key k of
             None \<Rightarrow> None
           | Some i \<Rightarrow> if i < length xs then Some (xs ! i) else None)"

text \<open>The own property \<open>k\<close> of an object or an array, when it has one.\<close>

fun own_property :: "jsval \<Rightarrow> string \<Rightarrow> jsval option" where
  "own_property (Obj kvs) k = map_of kvs k"
| "own_property (Arr xs) k = indexed xs k"
| "own_property v k = None"

text \<open>
  The names of the properties of \<^verbatim>\<open>Object.prototype\<close>, which every object inherits, and of
  \<^verbatim>\<open>Array.prototype\<close>, which every array inherits before them (those of ECMAScript 2023;
  an older engine lacks the most recent of the array methods).
\<close>

definition Object_prototype :: "string list" where
  "Object_prototype =
     [''constructor'', ''__defineGetter__'', ''__defineSetter__'', ''hasOwnProperty'',
      ''__lookupGetter__'', ''__lookupSetter__'', ''isPrototypeOf'', ''propertyIsEnumerable'',
      ''toString'', ''valueOf'', ''__proto__'', ''toLocaleString'']"

definition Array_prototype :: "string list" where
  "Array_prototype =
     [''constructor'', ''at'', ''concat'', ''copyWithin'', ''fill'', ''find'', ''findIndex'',
      ''findLast'', ''findLastIndex'', ''lastIndexOf'', ''pop'', ''push'', ''reverse'', ''shift'',
      ''unshift'', ''slice'', ''sort'', ''splice'', ''includes'', ''indexOf'', ''join'', ''keys'',
      ''entries'', ''values'', ''forEach'', ''filter'', ''flat'', ''flatMap'', ''map'', ''every'',
      ''some'', ''reduce'', ''reduceRight'', ''toReversed'', ''toSorted'', ''toSpliced'', ''with'',
      ''toLocaleString'', ''toString'']"

text \<open>
  The property \<open>k\<close> that an object, an array or a built-in inherits, when it inherits one.
  Under \<^verbatim>\<open>__proto__\<close> that is its prototype.
\<close>

definition from_Object :: "string \<Rightarrow> jsval option" where
  "from_Object k =
     (if k \<in> set Object_prototype then Some (Builtin (''Object.prototype.'' @ k)) else None)"

fun inherited :: "jsval \<Rightarrow> string \<Rightarrow> jsval option" where
  "inherited (Obj kvs) k =
     (if k = ''__proto__'' then Some (Builtin ''Object.prototype'') else from_Object k)"
| "inherited (Arr xs) k =
     (if k = ''__proto__'' then Some (Builtin ''Array.prototype'')
      else if k \<in> set Array_prototype then Some (Builtin (''Array.prototype.'' @ k))
      else from_Object k)"
| "inherited (Builtin p) k =
     (if k \<in> set Object_prototype then Some (Builtin (p @ ''.'' @ k)) else None)"
| "inherited v k = None"

text \<open>
  \<^verbatim>\<open>o[k]\<close> where \<open>o\<close> is neither \<^verbatim>\<open>undefined\<close> nor \<^verbatim>\<open>null\<close> (on those the access throws a
  TypeError, see \<open>nullish\<close>): an own property, a character or the length of a string, an
  inherited property of an object or an array, and \<^verbatim>\<open>undefined\<close> otherwise. The methods that
  a string, a number or a boolean borrows from its wrapper are not modelled: the adapter
  reads a primitive under the literal keys of its records only, and none of them names such
  a method.
\<close>

fun get :: "jsval \<Rightarrow> string \<Rightarrow> jsval" where
  "get (Str s) k =
     (case indexed (map (\<lambda>c. Str [c]) s) k of None \<Rightarrow> Undefined | Some v \<Rightarrow> v)"
| "get v k =
     (case own_property v k of
        Some x \<Rightarrow> x
      | None \<Rightarrow> (case inherited v k of Some x \<Rightarrow> x | None \<Rightarrow> Undefined))"

fun nullish :: "jsval \<Rightarrow> bool" where
  "nullish Undefined = True"
| "nullish Null = True"
| "nullish v = False"

text \<open>
  \<^verbatim>\<open>k in o\<close>: whether \<open>o\<close> has the property \<open>k\<close>, as its own or inherited, and a TypeError
  unless \<open>o\<close> is an object or an array.
\<close>

fun is_object :: "jsval \<Rightarrow> bool" where
  "is_object (Obj kvs) = True"
| "is_object (Arr xs) = True"
| "is_object (Builtin p) = True"
| "is_object v = False"

definition has_property :: "jsval \<Rightarrow> string \<Rightarrow> bool" where
  "has_property obj k = (own_property obj k \<noteq> None \<or> inherited obj k \<noteq> None)"

fun js_in :: "string \<Rightarrow> jsval \<Rightarrow> error + bool" where
  "js_in k (Obj kvs) = Inr (has_property (Obj kvs) k)"
| "js_in k (Arr xs) = Inr (has_property (Arr xs) k)"
| "js_in k (Builtin p) = Inr (has_property (Builtin p) k)"
| "js_in k v = Inl TypeError"

text \<open>\<^verbatim>\<open>Object.keys\<close>.\<close>

fun Object_keys :: "jsval \<Rightarrow> error + string list" where
  "Object_keys Undefined = Inl TypeError"
| "Object_keys Null = Inl TypeError"
| "Object_keys (Obj kvs) = Inr (map fst kvs)"
| "Object_keys (Arr xs) = Inr (map index_key [0..<length xs])"
| "Object_keys (Str s) = Inr (map index_key [0..<length s])"
| "Object_keys v = Inr []"

text \<open>
  \<^verbatim>\<open>o[k] = v\<close> on an object: the property keeps its place when it exists. (Under the name
  \<^verbatim>\<open>__proto__\<close> the language replaces the prototype instead of writing a property; reading
  the name back gives \<open>v\<close> either way.)
\<close>

fun assign :: "(string \<times> jsval) list \<Rightarrow> string \<Rightarrow> jsval \<Rightarrow> (string \<times> jsval) list" where
  "assign [] k v = [(k, v)]"
| "assign ((k', v') # kvs) k v = (if k' = k then (k, v) # kvs else (k', v') # assign kvs k v)"

section \<open>The helpers of the base class\<close>

text \<open>
  Modelled from the spec: the accessors \<^verbatim>\<open>safeString\<close>, \<^verbatim>\<open>safeFloat\<close>, \<^verbatim>\<open>safeInteger\<close> and
  \<^verbatim>\<open>safeValue\<close> of \<^verbatim>\<open>./base/Exchange\<close>, which is not under \<^verbatim>\<open>src/\<close>. The spec (4.2, 7):
  a normalizer tolerates a missing or non-numeric field "by falling back to an explicit
  undefined sentinel rather than throwing". Each reads the property \<open>k\<close> of \<open>obj\<close> when
  \<open>obj\<close> is an object and returns the default \<open>d\<close> unless the property has the wanted
  shape: a finite number or a string that parses to one (\<open>safeFloat\<close>, \<open>safeInteger\<close>),
  anything but \<^verbatim>\<open>undefined\<close> and \<^verbatim>\<open>null\<close> (\<open>safeValue\<close>, and \<open>safeString\<close>, which returns a
  string as it is and the host's rendering of any other value).
\<close>

definition js_prop :: "jsval \<Rightarrow> string \<Rightarrow> jsval" where
  "js_prop obj k = (case own_property obj k of None \<Rightarrow> Undefined | Some x \<Rightarrow> x)"

definition safeValue :: "jsval \<Rightarrow> string \<Rightarrow> jsval \<Rightarrow> jsval" where
  "safeValue obj k d = (let x = js_prop obj k in if nullish x then d else x)"

definition safeString :: "host \<Rightarrow> jsval \<Rightarrow> string \<Rightarrow> jsval \<Rightarrow> jsval" where
  "safeString h obj k d = (let x = js_prop obj k in if nullish x then d else Str (ToString h x))"

fun asFloat :: "host \<Rightarrow> jsval \<Rightarrow> jsnum" where
  "asFloat h (Num n) = (if isFinite n then n else NaN)"
| "asFloat h (Str s) = parseFloat_str h s"
| "asFloat h v = NaN"

definition safeFloat :: "host \<Rightarrow> jsval \<Rightarrow> string \<Rightarrow> jsval \<Rightarrow> jsval" where
  "safeFloat h obj k d = (let n = asFloat h (js_prop obj k) in if isFinite n then Num n else d)"

fun asInteger :: "host \<Rightarrow> jsval \<Rightarrow> jsnum" where
  "asInteger h (Num n) = (if isFinite n then parseInt10 h (Num n) else NaN)"
| "asInteger h (Str s) = parseInt10 h (Str s)"
| "asInteger h v = NaN"

definition safeInteger :: "host \<Rightarrow> jsval \<Rightarrow> string \<Rightarrow> jsval \<Rightarrow> jsval" where
  "safeInteger h obj k d = (let n = asInteger h (js_prop obj k) in if isFinite n then Num n else d)"

text \<open>
  Modelled from the spec: \<^verbatim>\<open>sum\<close> and \<^verbatim>\<open>account\<close> of the base class. The spec (4.2): the
  balance normalizer must "default both legs to zero when absent; total is the arithmetic
  sum". \<^verbatim>\<open>sum\<close> adds the arguments that are not \<^verbatim>\<open>undefined\<close>, starting from 0, and is
  \<^verbatim>\<open>undefined\<close> when there is none; \<^verbatim>\<open>account\<close> is a fresh entry with three zeros.
\<close>

definition sum_js :: "host \<Rightarrow> jsval list \<Rightarrow> jsval" where
  "sum_js h args =
     (let result = filter (\<lambda>arg. arg \<noteq> Undefined) args
      in if result \<noteq> [] then foldl (js_plus h) (Num (Fin 0)) result else Undefined)"

definition account :: "(string \<times> jsval) list" where
  "account = [(''free'', Num (Fin 0)), (''used'', Num (Fin 0)), (''total'', Num (Fin 0))]"

text \<open>
  Modelled from the spec: \<^verbatim>\<open>extend\<close> and \<^verbatim>\<open>omit\<close> of the base class. The spec (4.3, 6): the
  private body is the "URL-encoded form of {nonce, ...other params}" and the public query
  string holds the "remaining (non-path) parameters". \<^verbatim>\<open>extend\<close> copies the properties of
  its arguments, in order, into a fresh object (a later value replaces an earlier one and
  keeps its place); \<^verbatim>\<open>omit\<close> copies an object without the listed keys.
\<close>

definition entries_of :: "jsval \<Rightarrow> (string \<times> jsval) list" where
  "entries_of v = (case Object_keys v of Inl e \<Rightarrow> [] | Inr ks \<Rightarrow> map (\<lambda>k. (k, get v k)) ks)"

definition extend :: "jsval \<Rightarrow> jsval \<Rightarrow> jsval" where
  "extend a b =
     Obj (foldl (\<lambda>out (k, v). assign out k v) [] (entries_of a @ entries_of b))"

fun omit :: "jsval \<Rightarrow> string list \<Rightarrow> jsval" where
  "omit (Obj kvs) ks = Obj (filter (\<lambda>(k, v). k \<notin> set ks) kvs)"
| "omit v ks = v"

section \<open>The adapter: \<^verbatim>\<open>describe\<close>\<close>

definition this_id :: string where
  "this_id = ''gateio''"

definition version :: string where
  "version = ''2''"

definition urls_api :: "string \<Rightarrow> jsval" where
  "urls_api api =
     (if api = ''public'' then Str ''https://data.gate.io/api''
      else if api = ''private'' then Str ''https://data.gate.io/api''
      else Undefined)"

definition exceptions :: "(string \<times> (string \<Rightarrow> error)) list" where
  "exceptions =
     [(''4'', DDoSProtection),
      (''7'', NotSupported),
      (''8'', NotSupported),
      (''9'', NotSupported),
      (''15'', DDoSProtection),
      (''16'', OrderNotFound),
      (''17'', OrderNotFound),
      (''21'', InsufficientFunds)]"

definition errorCodeNames :: "(string \<times> string) list" where
  "errorCodeNames =
     [(''1'', ''Invalid request''),
      (''2'', ''Invalid version''),
      (''3'', ''Invalid request''),
      (''4'', ''Too many attempts''),
      (''5'', ''Invalid sign''),
      (''6'', ''Invalid sign''),
      (''7'', ''Currency is not supported''),
      (''8'', ''Currency is not supported''),
      (''9'', ''Currency is not supported''),
      (''10'', ''Verified failed''),
      (''11'', ''Obtaining address failed''),
      (''12'', ''Empty params''),
      (''13'', ''Internal error, please report to administrator''),
      (''14'', ''Invalid user''),
      (''15'', ''Cancel order too fast, please wait 1 min and try again''),
      (''16'', ''Invalid order id or order is already closed''),
      (''17'', ''Invalid orderid''),
      (''18'', ''Invalid amount''),
      (''19'', ''Not permitted or trade is disabled''),
      (''20'', ''Your order size is too small''),
      (''21'', ''You don'' @ [CHR 0x27] @ ''t have enough fund'')]"

text \<open>\<^verbatim>\<open>this.options['limits']['cost']['min']\<close>.\<close>

definition options_limits_cost_min :: jsval where
  "options_limits_cost_min =
     Obj [(''BTC'', Num (Fin (1 / 10000))),
          (''ETH'', Num (Fin (1 / 1000))),
          (''USDT'', Num (Fin 1))]"

section \<open>The error classifier: \<^verbatim>\<open>handleErrors\<close>\<close>

text \<open>
  The two tables are plain objects, so \<^verbatim>\<open>errorCode in exceptions\<close> holds for the keys of the
  table and for the names every object inherits. Under an inherited name
  \<^verbatim>\<open>exceptions[errorCode]\<close> is a built-in and not an error class: \<^verbatim>\<open>new\<close> of the built-in
  \<^verbatim>\<open>Object\<close> (the name \<^verbatim>\<open>constructor\<close>) gives an object that is thrown as it is, and \<^verbatim>\<open>new\<close>
  of any other throws a TypeError, for none of them is a constructor.
\<close>

definition in_table :: "string \<Rightarrow> (string \<times> 'a) list \<Rightarrow> bool" where
  "in_table k table = (map_of table k \<noteq> None \<or> k \<in> set Object_prototype)"

definition new_inherited :: "string \<Rightarrow> jsval \<Rightarrow> error" where
  "new_inherited k argument = (if k = ''constructor'' then Thrown argument else TypeError)"

text \<open>
  \<^verbatim>\<open>handleErrors (code, reason, url, method, headers, body)\<close> reads \<open>body\<close> only; the
  other five arguments are left out. \<open>Inr ()\<close> is a plain return.
\<close>

definition handleErrors :: "host \<Rightarrow> string \<Rightarrow> error + unit" where
  "handleErrors h body =
     (case body of
        [] \<Rightarrow> Inr ()
      | c # cs \<Rightarrow>
          if c \<noteq> CHR ''{'' then Inr ()
          else
            (case JSON_parse h body of
               None \<Rightarrow> Inl SyntaxError
             | Some jsonbodyParsed \<Rightarrow>
                 let resultString = safeString h jsonbodyParsed ''result'' (Str '''') in
                 if resultString \<noteq> Str ''false'' then Inr ()
                 else
                   let errorCode = safeString h jsonbodyParsed ''code'' Undefined in
                   if errorCode \<noteq> Undefined then
                     (if in_table (ToString h errorCode) exceptions then
                        let message =
                          (if in_table (ToString h errorCode) errorCodeNames
                           then (case map_of errorCodeNames (ToString h errorCode) of
                                   Some name \<Rightarrow> Str name
                                 | None \<Rightarrow> get (Obj []) (ToString h errorCode))
                           else safeString h jsonbodyParsed ''message'' (Str ''(unknown)''))
                        in
                        (case map_of exceptions (ToString h errorCode) of
                           Some exception \<Rightarrow> Inl (exception (ToString h message))
                         | None \<Rightarrow> Inl (new_inherited (ToString h errorCode) message))
                      else Inr ())
                   else Inr ()))"

section \<open>The normalizers\<close>

subsection \<open>\<^verbatim>\<open>parseTicker\<close>\<close>

definition parseTicker :: "host \<Rightarrow> jsval \<Rightarrow> jsval \<Rightarrow> jsval" where
  "parseTicker h ticker mkt =
     (let timestamp = milliseconds h;
          symbol = (if truthy mkt then get mkt ''symbol'' else Undefined);
          last = safeFloat h ticker ''last'' Undefined;
          percentage = safeFloat h ticker ''percentChange'' Undefined;
          relativeChange = js_over h percentage (Num (Fin 100));
          derived = (last \<noteq> Undefined \<and> percentage \<noteq> Undefined);
          open' = (if derived then js_over h last (sum_js h [Num (Fin 1), relativeChange])
                   else Undefined);
          change = (if derived then js_minus h last open' else Undefined);
          average = (if derived then js_over h (sum_js h [last, open']) (Num (Fin 2))
                     else Undefined)
      in Obj
        [(''symbol'', symbol),
         (''timestamp'', timestamp),
         (''datetime'', iso8601 h timestamp),
         (''high'', safeFloat h ticker ''high24hr'' Undefined),
         (''low'', safeFloat h ticker ''low24hr'' Undefined),
         (''bid'', safeFloat h ticker ''highestBid'' Undefined),
         (''bidVolume'', Undefined),
         (''ask'', safeFloat h ticker ''lowestAsk'' Undefined),
         (''askVolume'', Undefined),
         (''vwap'', Undefined),
         (''open'', open'),
         (''close'', last),
         (''last'', last),
         (''previousClose'', Undefined),
         (''change'', change),
         (''percentage'', percentage),
         (''average'', average),
         (''baseVolume'', safeFloat h ticker ''quoteVolume'' Undefined),
         (''quoteVolume'', safeFloat h ticker ''baseVolume'' Undefined),
         (''info'', ticker)])"

subsection \<open>\<^verbatim>\<open>parseTrade\<close> and \<^verbatim>\<open>parseMyTrade\<close>\<close>

text \<open>
  Both read properties of \<open>trade\<close> and of the market directly, which throws a TypeError
  when either is \<^verbatim>\<open>undefined\<close> or \<^verbatim>\<open>null\<close>.
\<close>

definition parseTrade :: "host \<Rightarrow> jsval \<Rightarrow> jsval \<Rightarrow> error + jsval" where
  "parseTrade h trade mkt =
     (if nullish trade \<or> nullish mkt then Inl TypeError
      else
        let timestamp =
              js_minus h (parse8601 h (get trade ''date'')) (Num (Fin (8 * 60 * 60 * 1000)))
        in Inr (Obj
          [(''id'', get trade ''tradeID''),
           (''info'', trade),
           (''timestamp'', timestamp),
           (''datetime'', iso8601 h timestamp),
           (''symbol'', get mkt ''symbol''),
           (''type'', Undefined),
           (''side'', get trade ''type''),
           (''price'', safeFloat h trade ''rate'' Undefined),
           (''amount'', safeFloat h trade ''amount'' Undefined)]))"

definition parseMyTrade :: "host \<Rightarrow> jsval \<Rightarrow> jsval \<Rightarrow> error + jsval" where
  "parseMyTrade h trade mkt =
     (if nullish trade \<or> nullish mkt then Inl TypeError
      else
        let ts = js_times h (Num (ToNumber h (get trade ''time_unix''))) (Num (Fin 1000))
        in Inr (Obj
          [(''id'', get trade ''tradeID''),
           (''order'', get trade ''orderNumber''),
           (''info'', trade),
           (''timestamp'', ts),
           (''datetime'', iso8601 h ts),
           (''symbol'', get mkt ''symbol''),
           (''type'', Undefined),
           (''side'', get trade ''type''),
           (''price'', js_parseFloat h (get trade ''rate'')),
           (''amount'', safeFloat h trade ''amount'' Undefined)]))"

subsection \<open>\<^verbatim>\<open>parseOrder\<close>\<close>

definition parseOrder :: "host \<Rightarrow> jsval \<Rightarrow> jsval \<Rightarrow> error + jsval" where
  "parseOrder h order mkt =
     (if nullish mkt \<or> nullish order then Inl TypeError
      else
        let timestamp = js_times h (safeInteger h order ''timestamp'' Undefined) (Num (Fin 1000));
            symbol = get mkt ''symbol'';
            initialAmount = safeFloat h order ''initialAmount'' Undefined;
            amount = (if \<not> truthy initialAmount then safeFloat h order ''amount'' Undefined
                      else initialAmount);
            initialRate = safeFloat h order ''initialRate'' Undefined;
            price = (if \<not> truthy initialRate then safeFloat h order ''rate'' Undefined
                     else initialRate);
            filled = safeFloat h order ''filledAmount'' Undefined;
            feePercentage = safeFloat h order ''feePercentage'' Undefined
        in Inr (Obj
          [(''info'', order),
           (''id'', get order ''orderNumber''),
           (''timestamp'', timestamp),
           (''datetime'', iso8601 h timestamp),
           (''status'', get order ''status''),
           (''symbol'', symbol),
           (''type'', Str ''limit''),
           (''side'', get order ''type''),
           (''price'', price),
           (''cost'', Undefined),
           (''amount'', amount),
           (''filled'', filled),
           (''average'', safeFloat h order ''filledRate'' Undefined),
           (''remaining'', js_minus h amount filled),
           (''trades'', Undefined),
           (''fee'',
              if truthy feePercentage
              then Obj [(''currency'', get mkt ''base''),
                        (''value'', js_over h (js_times h amount feePercentage) (Num (Fin 100)))]
              else Undefined)]))"

section \<open>Strings\<close>

text \<open>
  \<^verbatim>\<open>split\<close> on a one-character separator, \<^verbatim>\<open>toUpperCase\<close> (on the ASCII letters the pair
  ids are written in) and \<^verbatim>\<open>indexOf\<close> (the first position of a substring, or -1).
\<close>

fun split_on :: "char \<Rightarrow> string \<Rightarrow> string list" where
  "split_on sep [] = [[]]"
| "split_on sep (c # cs) =
     (if c = sep then [] # split_on sep cs
      else case split_on sep cs of [] \<Rightarrow> [[c]] | p # ps \<Rightarrow> (c # p) # ps)"

definition upper_char :: "char \<Rightarrow> char" where
  "upper_char c =
     (let n = (of_char c :: nat) in if 97 \<le> n \<and> n \<le> 122 then char_of (n - 32) else c)"

definition toUpperCase :: "string \<Rightarrow> string" where
  "toUpperCase s = map upper_char s"

fun is_prefix :: "string \<Rightarrow> string \<Rightarrow> bool" where
  "is_prefix [] s = True"
| "is_prefix (p # ps) [] = False"
| "is_prefix (p # ps) (c # cs) = (p = c \<and> is_prefix ps cs)"

fun indexOf_from :: "string \<Rightarrow> string \<Rightarrow> int \<Rightarrow> int" where
  "indexOf_from [] pat i = (if pat = [] then i else - 1)"
| "indexOf_from (c # cs) pat i =
     (if is_prefix pat (c # cs) then i else indexOf_from cs pat (i + 1))"

definition indexOf :: "string \<Rightarrow> string \<Rightarrow> int" where
  "indexOf s pat = indexOf_from s pat 0"

section \<open>The market catalog: \<^verbatim>\<open>fetchMarkets\<close>\<close>

text \<open>
  The body of the loop, for one element \<open>mkt\<close> of the \<^verbatim>\<open>pairs\<close> list. \<^verbatim>\<open>Object.keys\<close>
  throws on \<^verbatim>\<open>undefined\<close> and \<^verbatim>\<open>null\<close>; \<^verbatim>\<open>id.split\<close> throws when there is no first key;
  \<^verbatim>\<open>quote.toUpperCase\<close> throws when the id has no \<^verbatim>\<open>_\<close>; \<^verbatim>\<open>details[...]\<close> throws
  when the value under the id is \<^verbatim>\<open>null\<close>.
\<close>

definition fetchMarkets_entry :: "host \<Rightarrow> jsval \<Rightarrow> error + jsval" where
  "fetchMarkets_entry h mkt =
     (case Object_keys mkt of
        Inl e \<Rightarrow> Inl e
      | Inr keys \<Rightarrow>
          (case keys of
             [] \<Rightarrow> Inl TypeError
           | id' # others \<Rightarrow>
               let details = get mkt id' in
               (case split_on CHR ''_'' id' of
                  base0 # quote0 # rest \<Rightarrow>
                    let base = commonCurrencyCode h (toUpperCase base0);
                        quote = commonCurrencyCode h (toUpperCase quote0);
                        symbol = base @ ''/'' @ quote
                    in
                      if nullish details then Inl TypeError
                      else
                        let precision =
                              Obj [(''amount'', Num (Fin 8)),
                                   (''price'', get details ''decimal_places'')];
                            amountLimits =
                              Obj [(''min'', get details ''min_amount''), (''max'', Undefined)];
                            priceLimits =
                              Obj [(''min'',
                                      Math_pow h (Num (Fin 10))
                                        (js_negate h (get details ''decimal_places''))),
                                   (''max'', Undefined)];
                            defaultCost =
                              js_times h (get amountLimits ''min'') (get priceLimits ''min'');
                            minCost = safeFloat h options_limits_cost_min quote defaultCost;
                            costLimits = Obj [(''min'', minCost), (''max'', Undefined)];
                            limits =
                              Obj [(''amount'', amountLimits),
                                   (''price'', priceLimits),
                                   (''cost'', costLimits)]
                        in Inr (Obj
                          [(''id'', Str id'),
                           (''symbol'', Str symbol),
                           (''base'', Str base),
                           (''quote'', Str quote),
                           (''info'', mkt),
                           (''maker'', js_over h (get details ''fee'') (Num (Fin 100))),
                           (''taker'', js_over h (get details ''fee'') (Num (Fin 100))),
                           (''precision'', precision),
                           (''limits'', limits)])
                | short \<Rightarrow> Inl TypeError)))"

text \<open>The loop: \<open>result\<close> grows by one entry per element, and the first throw ends it.\<close>

fun fetchMarkets_loop :: "host \<Rightarrow> jsval list \<Rightarrow> jsval list \<Rightarrow> error + jsval list" where
  "fetchMarkets_loop h [] result = Inr result"
| "fetchMarkets_loop h (mkt # rest) result =
     (case fetchMarkets_entry h mkt of
        Inl e \<Rightarrow> Inl e
      | Inr entry \<Rightarrow> fetchMarkets_loop h rest (result @ [entry]))"

text \<open>
  The values \<^verbatim>\<open>markets[0]\<close>, ..., that \<^verbatim>\<open>for (i = 0; i < markets.length; i++)\<close> visits when
  no iteration throws. \<open>None\<close>: the length is \<^verbatim>\<open>Infinity\<close> (an object with such a \<^verbatim>\<open>length\<close>
  property), and the loop ends in the TypeError of \<^verbatim>\<open>Object.keys (undefined)\<close> at the
  first index the object lacks, if not earlier.
\<close>

definition iterations :: "jsnum \<Rightarrow> nat option" where
  "iterations n = (case n of Fin r \<Rightarrow> Some (nat \<lceil>r\<rceil>) | PInf \<Rightarrow> None | other \<Rightarrow> Some 0)"

fun elements :: "host \<Rightarrow> jsval \<Rightarrow> jsval list option" where
  "elements h (Arr xs) = Some xs"
| "elements h (Str s) = Some (map (\<lambda>c. Str [c]) s)"
| "elements h v =
     (case iterations (ToNumber h (get v ''length'')) of
        None \<Rightarrow> None
      | Some n \<Rightarrow> Some (map (\<lambda>i. get v (index_key i)) [0..<n]))"

definition fetchMarkets :: "host \<Rightarrow> error + jsval" where
  "fetchMarkets h =
     (case publicGetMarketinfo h of
        Inl e \<Rightarrow> Inl e
      | Inr response \<Rightarrow>
          let markets = safeValue response ''pairs'' Undefined in
          if \<not> truthy markets
          then Inl (ExchangeError (this_id @ '' fetchMarkets got an unrecognized response''))
          else
            (case elements h markets of
               None \<Rightarrow> Inl TypeError
             | Some ms \<Rightarrow>
                 (case fetchMarkets_loop h ms [] of
                    Inl e \<Rightarrow> Inl e
                  | Inr result \<Rightarrow> Inr (Arr result))))"

text \<open>
  Modelled from the spec: the canonical error kinds of the spec (7), by name, for the error
  classes the code raises. The spec names \<^verbatim>\<open>RateLimited\<close> what "signals excessive request
  rate or too-frequent cancellation" (codes 4 and 15: \<^verbatim>\<open>DDoSProtection\<close>),
  \<^verbatim>\<open>UnsupportedOperation\<close> a "currency/feature disabled by the exchange" (codes 7, 8, 9:
  \<^verbatim>\<open>NotSupported\<close>), \<^verbatim>\<open>InvalidAddressError\<close> the failed address lookup (\<^verbatim>\<open>InvalidAddress\<close>), and
  keeps \<^verbatim>\<open>ExchangeError\<close> as the "generic catch-all", apart from \<^verbatim>\<open>ConfigurationError\<close>.
\<close>

fun kind_name :: "error \<Rightarrow> string" where
  "kind_name (ExchangeError m) = ''ExchangeError''"
| "kind_name (InvalidAddress m) = ''InvalidAddressError''"
| "kind_name (OrderNotFound m) = ''OrderNotFound''"
| "kind_name (NotSupported m) = ''UnsupportedOperation''"
| "kind_name (DDoSProtection m) = ''RateLimited''"
| "kind_name (InsufficientFunds m) = ''InsufficientFunds''"
| "kind_name (AuthenticationError m) = ''AuthenticationError''"
| "kind_name TypeError = ''TypeError''"
| "kind_name SyntaxError = ''SyntaxError''"
| "kind_name (Thrown v) = ''Thrown''"

section \<open>Balances: \<^verbatim>\<open>fetchBalance\<close>\<close>

text \<open>
  The body of the loop for one key \<open>currency\<close> of \<^verbatim>\<open>this.currencies\<close>: the account stored
  under the currency's code. The operator \<^verbatim>\<open>in\<close> throws when the response, or the sub-map
  it looks into, is not an object.
\<close>

definition fetchBalance_account :: "host \<Rightarrow> jsval \<Rightarrow> string \<Rightarrow> error + jsval" where
  "fetchBalance_account h balance currency' =
     (case js_in ''available'' balance of
        Inl e \<Rightarrow> Inl e
      | Inr hasAvailable \<Rightarrow>
          (case (if hasAvailable then js_in currency' (get balance ''available'') else Inr False) of
             Inl e \<Rightarrow> Inl e
           | Inr isFree \<Rightarrow>
               let account1 =
                     (if isFree
                      then assign account ''free''
                             (js_parseFloat h (get (get balance ''available'') currency'))
                      else account)
               in
               (case js_in ''locked'' balance of
                  Inl e \<Rightarrow> Inl e
                | Inr hasLocked \<Rightarrow>
                    (case (if hasLocked then js_in currency' (get balance ''locked'') else Inr False) of
                       Inl e \<Rightarrow> Inl e
                     | Inr isUsed \<Rightarrow>
                         let account2 =
                               (if isUsed
                                then assign account1 ''used''
                                       (js_parseFloat h (get (get balance ''locked'') currency'))
                                else account1);
                             total =
                               sum_js h [get (Obj account2) ''free'', get (Obj account2) ''used'']
                         in Inr (Obj (assign account2 ''total'' total))))))"

fun fetchBalance_loop ::
  "host \<Rightarrow> jsval \<Rightarrow> string list \<Rightarrow> (string \<times> jsval) list \<Rightarrow> error + (string \<times> jsval) list"
where
  "fetchBalance_loop h balance [] result = Inr result"
| "fetchBalance_loop h balance (currency' # rest) result =
     (let code = commonCurrencyCode h currency' in
      case fetchBalance_account h balance currency' of
        Inl e \<Rightarrow> Inl e
      | Inr entry \<Rightarrow> fetchBalance_loop h balance rest (assign result code entry))"

text \<open>
  \<open>fetchBalance_result\<close> is the object \<open>result\<close> as the loop leaves it;
  \<^verbatim>\<open>fetchBalance\<close> returns what the base class's \<^verbatim>\<open>parseBalance\<close> makes of it.
\<close>

definition fetchBalance_result :: "host \<Rightarrow> jsval \<Rightarrow> error + jsval" where
  "fetchBalance_result h balance =
     (case Object_keys (currencies h) of
        Inl e \<Rightarrow> Inl e
      | Inr cs \<Rightarrow>
          (case fetchBalance_loop h balance cs [(''info'', balance)] of
             Inl e \<Rightarrow> Inl e
           | Inr result \<Rightarrow> Inr (Obj result)))"

definition fetchBalance :: "host \<Rightarrow> jsval \<Rightarrow> error + jsval" where
  "fetchBalance h params =
     (case loadMarkets h of
        Inl e \<Rightarrow> Inl e
      | Inr u \<Rightarrow>
          (case privatePostBalances h of
             Inl e \<Rightarrow> Inl e
           | Inr balance \<Rightarrow>
               (case fetchBalance_result h balance of
                  Inl e \<Rightarrow> Inl e
                | Inr result \<Rightarrow> Inr (parseBalance h result))))"

section \<open>Deposit addresses: \<^verbatim>\<open>queryDepositAddress\<close>\<close>

text \<open>
  \<^verbatim>\<open>this['privatePost' + method + 'Address']\<close>: the two implicit API methods of that shape;
  under any other name there is no function to call.
\<close>

definition privatePost_Address :: "host \<Rightarrow> string \<Rightarrow> jsval \<Rightarrow> error + jsval" where
  "privatePost_Address h method' request =
     (if method' = ''Deposit'' then privatePostDepositAddress h request
      else if method' = ''New'' then privatePostNewAddress h request
      else Inl TypeError)"

definition queryDepositAddress :: "host \<Rightarrow> string \<Rightarrow> jsval \<Rightarrow> jsval \<Rightarrow> error + jsval" where
  "queryDepositAddress h method' code params =
     (case loadMarkets h of
        Inl e \<Rightarrow> Inl e
      | Inr u \<Rightarrow>
          (case currency h code of
             Inl e \<Rightarrow> Inl e
           | Inr currency' \<Rightarrow>
               if nullish currency' then Inl TypeError
               else
                 (case privatePost_Address h method'
                         (extend (Obj [(''currency'', get currency' ''id'')]) params) of
                    Inl e \<Rightarrow> Inl e
                  | Inr response \<Rightarrow>
                      let address = safeString h response ''addr'' Undefined in
                      if address \<noteq> Undefined \<and> 0 \<le> indexOf (ToString h address) ''address''
                      then Inl (InvalidAddress
                                  (this_id @ '' queryDepositAddress '' @ ToString h address))
                      else if code = Str ''XRP'' then
                        (if address = Undefined then Inl TypeError
                         else
                           let parts = take 2 (split_on CHR ''/'' (ToString h address));
                               address' = get (Arr (map Str parts)) ''0'';
                               tag = get (Arr (map Str parts)) ''1''
                           in Inr (Obj
                             [(''currency'', currency'),
                              (''address'', address'),
                              (''tag'', tag),
                              (''status'', if address' \<noteq> Undefined then Str ''ok'' else Str ''none''),
                              (''info'', response)]))
                      else Inr (Obj
                        [(''currency'', currency'),
                         (''address'', address),
                         (''tag'', Undefined),
                         (''status'', if address \<noteq> Undefined then Str ''ok'' else Str ''none''),
                         (''info'', response)]))))"

definition createDepositAddress :: "host \<Rightarrow> jsval \<Rightarrow> jsval \<Rightarrow> error + jsval" where
  "createDepositAddress h code params = queryDepositAddress h ''New'' code params"

definition fetchDepositAddress :: "host \<Rightarrow> jsval \<Rightarrow> jsval \<Rightarrow> error + jsval" where
  "fetchDepositAddress h code params = queryDepositAddress h ''Deposit'' code params"

section \<open>Private trade history: \<^verbatim>\<open>fetchMyTrades\<close>\<close>

text \<open>
  The class body defines \<^verbatim>\<open>fetchMyTrades\<close> twice; a later method of the same name replaces
  an earlier one, so the definition at the end of the class is the method of the class,
  and it is the one modelled. It returns its result together with the calls it has made
  so far, in order: the loading of the markets and the HTTP request.
\<close>

datatype call = LoadMarkets | PrivatePostTradeHistory jsval

definition fetchMyTrades ::
  "host \<Rightarrow> jsval \<Rightarrow> jsval \<Rightarrow> jsval \<Rightarrow> jsval \<Rightarrow> call list \<times> (error + jsval)"
where
  "fetchMyTrades h symbol since limit params =
     (if symbol = Undefined
      then ([], Inl (ExchangeError (this_id @ '' fetchMyTrades requires symbol param'')))
      else
        (case loadMarkets h of
           Inl e \<Rightarrow> ([LoadMarkets], Inl e)
         | Inr u \<Rightarrow>
             (case market h symbol of
                Inl e \<Rightarrow> ([LoadMarkets], Inl e)
              | Inr mkt \<Rightarrow>
                  if nullish mkt then ([LoadMarkets], Inl TypeError)
                  else
                    let id' = get mkt ''id'';
                        request = extend (Obj [(''currencyPair'', id')]) params
                    in
                    (case privatePostTradeHistory h request of
                       Inl e \<Rightarrow> ([LoadMarkets, PrivatePostTradeHistory request], Inl e)
                     | Inr response \<Rightarrow>
                         ([LoadMarkets, PrivatePostTradeHistory request],
                          if nullish response then Inl TypeError
                          else parseTrades h (get response ''trades'') mkt since limit)))))"

text \<open>
  Modelled from the spec: \<^verbatim>\<open>parseTrades\<close> of \<^verbatim>\<open>./base/Exchange\<close>, which is not under \<^verbatim>\<open>src/\<close>
  and which \<^verbatim>\<open>fetchTrades\<close> and \<^verbatim>\<open>fetchMyTrades\<close> both return the result of. The spec (3, 4.2):
  the public feed holds Trade records, made by the "Trade normalizer (public feed)", one per
  raw record; so \<^verbatim>\<open>parseTrades\<close> applies \<^verbatim>\<open>this.parseTrade\<close> to every record of the list it is
  given (none when there is no list). This is the \<^verbatim>\<open>parseTrades\<close> of the example host for the
  private trade history; whatever the base class does with \<open>since\<close> and \<open>limit\<close> is left out,
  and the example passes neither.
\<close>

fun parseTrades_each :: "host \<Rightarrow> jsval list \<Rightarrow> jsval \<Rightarrow> error + jsval list" where
  "parseTrades_each h [] mkt = Inr []"
| "parseTrades_each h (trade # rest) mkt =
     (case parseTrade h trade mkt of
        Inl e \<Rightarrow> Inl e
      | Inr parsed \<Rightarrow>
          (case parseTrades_each h rest mkt of
             Inl e \<Rightarrow> Inl e
           | Inr result \<Rightarrow> Inr (parsed # result)))"

fun Object_values :: "jsval \<Rightarrow> jsval list" where
  "Object_values (Arr xs) = xs"
| "Object_values (Obj kvs) = map snd kvs"
| "Object_values (Str s) = map (\<lambda>c. Str [c]) s"
| "Object_values v = []"

definition parseTrades_base :: "host \<Rightarrow> jsval \<Rightarrow> jsval \<Rightarrow> jsval \<Rightarrow> jsval \<Rightarrow> error + jsval" where
  "parseTrades_base h trades mkt since limit =
     (case parseTrades_each h (Object_values trades) mkt of
        Inl e \<Rightarrow> Inl e
      | Inr result \<Rightarrow> Inr (Arr result))"

section \<open>The request signer: \<^verbatim>\<open>sign\<close>\<close>

text \<open>
  Modelled from the spec: \<^verbatim>\<open>checkRequiredCredentials\<close> of the base class. The spec (4.3, 6):
  a private call "requires valid credentials present (fails with AuthenticationError
  otherwise)"; the credential store "exposes API key/secret" and the check "fails fast when
  private calls are attempted without configured credentials". \<open>None\<close>: the check passes.
\<close>

definition checkRequiredCredentials :: "host \<Rightarrow> error option" where
  "checkRequiredCredentials h =
     (if \<not> truthy (apiKey h) then Some (AuthenticationError (this_id @ '' requires apiKey''))
      else if \<not> truthy (secret h) then Some (AuthenticationError (this_id @ '' requires secret''))
      else None)"

text \<open>
  \<^verbatim>\<open>encode\<close> is the identity in JavaScript, and \<^verbatim>\<open>hmac\<close> is called with its default digest,
  \<^verbatim>\<open>'hex'\<close>: \<open>hmac h request secret algorithm\<close> stands for the hexadecimal HMAC.
\<close>

definition sign ::
  "host \<Rightarrow> string \<Rightarrow> string \<Rightarrow> jsval \<Rightarrow> jsval \<Rightarrow> jsval \<Rightarrow> jsval \<Rightarrow> error + jsval"
where
  "sign h path api method' params headers body =
     (let prefix = (if api = ''private'' then api @ ''/'' else '''');
          url = ToString h (urls_api api) @ version @ ''/1/'' @ prefix @ implodeParams h path params;
          query = omit params (extractParams h path)
      in
        if api = ''public'' then
          (case Object_keys query of
             Inl e \<Rightarrow> Inl e
           | Inr keys \<Rightarrow>
               let url' = (if keys \<noteq> [] then url @ ''?'' @ urlencode h query else url)
               in Inr (Obj
                 [(''url'', Str url'),
                  (''method'', method'),
                  (''body'', body),
                  (''headers'', headers)]))
        else
          (case checkRequiredCredentials h of
             Some e \<Rightarrow> Inl e
           | None \<Rightarrow>
               let request = Obj [(''nonce'', nonce h)];
                   body' = urlencode h (extend request query);
                   signature = hmac h body' (secret h) ''sha512'';
                   headers' =
                     Obj [(''Key'', apiKey h),
                          (''Sign'', Str signature),
                          (''Content-Type'', Str ''application/x-www-form-urlencoded'')]
               in Inr (Obj
                 [(''url'', Str url),
                  (''method'', method'),
                  (''body'', Str body'),
                  (''headers'', headers')])))"

section \<open>A host for the examples\<close>

text \<open>
  A concrete host, on which the examples below run: values that are not numbers convert
  to \<^verbatim>\<open>NaN\<close> and to the empty string, every collaborator returns its argument or nothing,
  no credentials are configured and every HTTP call answers \<^verbatim>\<open>{}\<close>. An example that needs
  more (a parsed body, a registry, credentials) updates the fields it needs.
\<close>

definition example_host :: host where
  "example_host =
     \<lparr> ToNumber_other = (\<lambda>v. NaN),
       ToString_other = (\<lambda>v. ''''),
       parseFloat_str = (\<lambda>s. NaN),
       parseInt10 = (\<lambda>v. NaN),
       Math_pow_other = (\<lambda>b e. NaN),
       JSON_parse = (\<lambda>s. None),
       commonCurrencyCode = (\<lambda>c. c),
       parse8601 = (\<lambda>v. Undefined),
       iso8601 = (\<lambda>v. Undefined),
       milliseconds = Num (Fin 0),
       nonce = Num (Fin 1),
       apiKey = Undefined,
       secret = Undefined,
       currencies = Obj [],
       currency = (\<lambda>code. Inr (Obj [(''id'', code)])),
       market = (\<lambda>symbol. Inr (Obj [(''id'', symbol), (''symbol'', symbol)])),
       loadMarkets = Inr (),
       parseBalance = (\<lambda>result. result),
       parseTrades = (\<lambda>trades mkt since limit. Inr trades),
       implodeParams = (\<lambda>path params. path),
       extractParams = (\<lambda>path. []),
       urlencode = (\<lambda>query. ''''),
       hmac = (\<lambda>request key algorithm. ''''),
       publicGetMarketinfo = Inr (Obj []),
       privatePostBalances = Inr (Obj []),
       privatePostDepositAddress = (\<lambda>request. Inr (Obj [])),
       privatePostNewAddress = (\<lambda>request. Inr (Obj [])),
       privatePostTradeHistory = (\<lambda>request. Inr (Obj [])) \<rparr>"

definition example_market :: jsval where
  "example_market =
     Obj [(''id'', Str ''btc_usdt''), (''symbol'', Str ''BTC/USDT''),
          (''base'', Str ''BTC''), (''quote'', Str ''USDT'')]"

text \<open>The example host with a \<^verbatim>\<open>JSON.parse\<close> that knows five response bodies.\<close>

definition example_parsing_host :: host where
  "example_parsing_host =
     example_host \<lparr> JSON_parse := (\<lambda>s.
       if s = ''{\"result\":\"false\",\"code\":\"21\",\"message\":\"x\"}''
       then Some (Obj [(''result'', Str ''false''), (''code'', Str ''21''), (''message'', Str ''x'')])
       else if s = ''{\"result\":\"true\"}''
       then Some (Obj [(''result'', Str ''true'')])
       else if s = ''{\"result\":\"false\",\"code\":\"99\"}''
       then Some (Obj [(''result'', Str ''false''), (''code'', Str ''99'')])
       else if s = ''{\"result\":false,\"code\":\"21\"}''
       then Some (Obj [(''result'', Bool False), (''code'', Str ''21'')])
       else if s = ''{\"result\":\"false\",\"code\":\"toString\"}''
       then Some (Obj [(''result'', Str ''false''), (''code'', Str ''toString'')])
       else None) \<rparr>"

text \<open>The example host with a \<^verbatim>\<open>parse8601\<close> that reads one date, as if it were UTC.\<close>

definition example_dating_host :: host where
  "example_dating_host =
     example_host \<lparr> parse8601 := (\<lambda>v.
       if v = Str ''2018-01-01 08:00:00'' then Num (Fin 1514793600000) else Undefined) \<rparr>"

text \<open>
  The example host for the private trade history: the date-reading host with the market
  of the examples, a \<^verbatim>\<open>parseTrades\<close> that normalizes every record with \<^verbatim>\<open>parseTrade\<close>, and a
  trade-history endpoint that answers with one record, whose \<^verbatim>\<open>time_unix\<close> is the second its
  \<^verbatim>\<open>date\<close> names.
\<close>

definition example_my_trade :: jsval where
  "example_my_trade =
     Obj [(''tradeID'', Str ''1''), (''orderNumber'', Str ''9''), (''pair'', Str ''btc_usdt''),
          (''type'', Str ''buy''), (''rate'', Num (Fin 7000)), (''amount'', Num (Fin 1)),
          (''date'', Str ''2018-01-01 08:00:00''), (''time_unix'', Num (Fin 1514793600))]"

definition example_trading_host :: host where
  "example_trading_host =
     example_dating_host \<lparr>
       market := (\<lambda>symbol. Inr example_market),
       parseTrades := parseTrades_base example_dating_host,
       privatePostTradeHistory := (\<lambda>request.
         Inr (Obj [(''result'', Str ''true''), (''trades'', Arr [example_my_trade])])) \<rparr>"

section \<open>Vocabulary of the theorems\<close>

text \<open>
  The field \<open>k\<close> of the record a normalizer returns, when it returns one, and the test
  \<open>safeFloat\<close> applies to a raw field: it is a finite number, or a string that
  \<^verbatim>\<open>parseFloat\<close> reads as one.
\<close>

definition field :: "string \<Rightarrow> error + jsval \<Rightarrow> error + jsval" where
  "field k res = (case res of Inl e \<Rightarrow> Inl e | Inr r \<Rightarrow> Inr (get r k))"

definition numeric :: "host \<Rightarrow> jsval \<Rightarrow> bool" where
  "numeric h v = isFinite (asFloat h v)"

text \<open>
  The sub-map \<open>leg\<close> (\<^verbatim>\<open>available\<close> or \<^verbatim>\<open>locked\<close>) of a balance response lists the currency:
  both tests \<^verbatim>\<open>leg in balance\<close> and \<^verbatim>\<open>currency in balance[leg]\<close> of \<^verbatim>\<open>fetchBalance\<close> hold.
\<close>

definition listed :: "jsval \<Rightarrow> string \<Rightarrow> string \<Rightarrow> bool" where
  "listed balance leg currency' =
     (js_in leg balance = Inr True \<and> js_in currency' (get balance leg) = Inr True)"

text \<open>
  The example host with two known currencies, a balance response that lists one of them,
  and a \<^verbatim>\<open>parseFloat\<close> that reads the two amounts of the response.
\<close>

definition example_balance :: jsval where
  "example_balance =
     Obj [(''result'', Str ''true''),
          (''available'', Obj [(''BTC'', Str ''0.5'')]),
          (''locked'', Obj [(''BTC'', Str ''0.25'')])]"

definition example_balance_host :: host where
  "example_balance_host =
     example_host \<lparr>
       parseFloat_str := (\<lambda>s. if s = ''0.5'' then Fin (1 / 2)
                               else if s = ''0.25'' then Fin (1 / 4) else NaN),
       currencies := Obj [(''BTC'', Obj [(''id'', Str ''btc'')]),
                          (''ETH'', Obj [(''id'', Str ''eth'')])],
       privatePostBalances := Inr example_balance \<rparr>"

text \<open>
  The example host with two known currencies of one code, \<^verbatim>\<open>XBT\<close> and \<^verbatim>\<open>BTC\<close>, and a balance
  response that lists the first of them only.
\<close>

definition example_alias_balance :: jsval where
  "example_alias_balance =
     Obj [(''result'', Str ''true''),
          (''available'', Obj [(''XBT'', Str ''0.5'')]),
          (''locked'', Obj [])]"

definition example_alias_host :: host where
  "example_alias_host =
     example_host \<lparr>
       parseFloat_str := (\<lambda>s. if s = ''0.5'' then Fin (1 / 2) else NaN),
       commonCurrencyCode := (\<lambda>c. if c = ''XBT'' then ''BTC'' else c),
       currencies := Obj [(''XBT'', Obj [(''id'', Str ''xbt'')]),
                          (''BTC'', Obj [(''id'', Str ''btc'')])],
       privatePostBalances := Inr example_alias_balance \<rparr>"

text \<open>
  The example host whose address endpoints answer with a failure text for \<^verbatim>\<open>btc\<close> and
  with an address and a tag for \<^verbatim>\<open>xrp\<close>.
\<close>

definition example_address_host :: host where
  "example_address_host =
     example_host \<lparr>
       currency := (\<lambda>code. if code = Str ''XRP'' then Inr (Obj [(''id'', Str ''xrp'')])
                            else Inr (Obj [(''id'', Str ''btc'')])),
       privatePostDepositAddress := (\<lambda>request.
         if get request ''currency'' = Str ''xrp''
         then Inr (Obj [(''result'', Str ''true''), (''addr'', Str ''rAddr123/456'')])
         else Inr (Obj [(''result'', Str ''true''), (''addr'', Str ''1xrpaddresserror'')])) \<rparr>"

text \<open>The example host with credentials, and the example host as it is a host without.\<close>

definition example_signing_host :: host where
  "example_signing_host =
     example_host \<lparr>
       nonce := Num (Fin 1514764800000),
       apiKey := Str ''key'',
       secret := Str ''secret'',
       urlencode := (\<lambda>query. if query = Obj [(''nonce'', Num (Fin 1514764800000)),
                                               (''currencyPair'', Str ''btc_usdt'')]
                                then ''nonce=1514764800000&currencyPair=btc_usdt''
                                else if query = Obj [(''limit'', Num (Fin 5))]
                                then ''limit=5'' else ''''),
       hmac := (\<lambda>request key algorithm. ''hmac('' @ algorithm @ '','' @ request @ '')'') \<rparr>"

text \<open>
  The example host whose catalog endpoint lists three pairs, and the one whose catalog
  endpoint answers with a list that holds an empty record.
\<close>

definition example_catalog :: jsval where
  "example_catalog =
     Obj [(''result'', Str ''true''),
          (''pairs'',
             Arr [Obj [(''btc_usdt'',
                          Obj [(''decimal_places'', Num (Fin 2)),
                               (''min_amount'', Num (Fin (1 / 10000))),
                               (''fee'', Num (Fin (1 / 5)))])],
                  Obj [(''eth_btc'',
                          Obj [(''decimal_places'', Num (Fin 6)),
                               (''min_amount'', Num (Fin (1 / 1000))),
                               (''fee'', Num (Fin (1 / 5)))])],
                  Obj [(''doge_cnyx'',
                          Obj [(''decimal_places'', Num (Fin 4)),
                               (''min_amount'', Num (Fin 10)),
                               (''fee'', Num (Fin (1 / 5)))])]])]"

definition example_catalog_host :: host where
  "example_catalog_host = example_host \<lparr> publicGetMarketinfo := Inr example_catalog \<rparr>"

definition example_broken_catalog_host :: host where
  "example_broken_catalog_host =
     example_host \<lparr> publicGetMarketinfo := Inr (Obj [(''pairs'', Arr [Obj []])]) \<rparr>"

text \<open>
  What the catalog promises of the entry emitted for one pair record \<open>pair\<close>, whose first
  key is the pair id \<^verbatim>\<open>base_quote\<close> and whose value under that key holds the details: the
  symbol is the canonical upper-case base, \<^verbatim>\<open>/\<close> and the canonical upper-case quote; the
  price precision is the record's \<^verbatim>\<open>decimal_places\<close>; the least price is 10 to the power
  \<^verbatim>\<open>-decimal_places\<close> (spelled out where \<^verbatim>\<open>decimal_places\<close> is an integer); the least cost is
  the table's entry for the quote and the least amount times the least price otherwise.
\<close>

definition catalog_record :: "host \<Rightarrow> jsval \<Rightarrow> jsval \<Rightarrow> bool" where
  "catalog_record h pair entry =
     (case Object_keys pair of
        Inl e \<Rightarrow> False
      | Inr keys \<Rightarrow>
          (case keys of
             [] \<Rightarrow> False
           | id' # others \<Rightarrow>
               (case split_on CHR ''_'' id' of
                  base0 # quote0 # rest \<Rightarrow>
                    (let details = get pair id';
                         base = commonCurrencyCode h (toUpperCase base0);
                         quote = commonCurrencyCode h (toUpperCase quote0);
                         decimal_places = get details ''decimal_places'';
                         priceMin = get (get (get entry ''limits'') ''price'') ''min''
                     in get entry ''id'' = Str id'
                      \<and> get entry ''base'' = Str base
                      \<and> get entry ''quote'' = Str quote
                      \<and> get entry ''symbol'' = Str (base @ ''/'' @ quote)
                      \<and> get (get entry ''precision'') ''price'' = decimal_places
                      \<and> priceMin = Math_pow h (Num (Fin 10)) (js_negate h decimal_places)
                      \<and> (case decimal_places of
                            Num (Fin r) \<Rightarrow>
                              if of_int \<lfloor>r\<rfloor> = r then priceMin = Num (Fin (10 powi (- \<lfloor>r\<rfloor>)))
                              else True
                          | other \<Rightarrow> True)
                      \<and> get (get (get entry ''limits'') ''cost'') ''min''
                          = (if quote = ''BTC'' then Num (Fin (1 / 10000))
                             else if quote = ''ETH'' then Num (Fin (1 / 1000))
                             else if quote = ''USDT'' then Num (Fin 1)
                             else js_times h (get details ''min_amount'') priceMin))
                | short \<Rightarrow> False)))"

text \<open>
  A valid pair record: it has a first key, the pair id, which holds a \<^verbatim>\<open>_\<close>, and the value
  under that key, the details, is neither \<^verbatim>\<open>null\<close> nor \<^verbatim>\<open>undefined\<close>.
\<close>

definition valid_pair :: "jsval \<Rightarrow> bool" where
  "valid_pair pair =
     (case Object_keys pair of
        Inl e \<Rightarrow> False
      | Inr keys \<Rightarrow>
          (case keys of
             [] \<Rightarrow> False
           | id' # others \<Rightarrow>
               (case split_on CHR ''_'' id' of
                  base0 # quote0 # rest \<Rightarrow> \<not> nullish (get pair id')
                | short \<Rightarrow> False)))"

text \<open>
  The entries of a balance are keyed by code, and the loop of \<^verbatim>\<open>fetchBalance\<close> writes one
  for every known currency, in the order of the registry: the entry that stays under the
  code of a currency is the one of the last known currency with that code. What
  \<^verbatim>\<open>fetchBalance\<close> promises of the entry written for the currency \<open>c\<close>: \<^verbatim>\<open>free\<close> is what
  \<^verbatim>\<open>parseFloat\<close> reads in the \<^verbatim>\<open>available\<close> sub-map under \<open>c\<close> and 0 when the sub-map does not
  list \<open>c\<close>, \<^verbatim>\<open>used\<close> likewise from \<^verbatim>\<open>locked\<close>, and \<^verbatim>\<open>total\<close> is their sum; three zeros when
  neither sub-map lists \<open>c\<close>.
\<close>

definition last_with_code :: "host \<Rightarrow> string list \<Rightarrow> string \<Rightarrow> string" where
  "last_with_code h cs c =
     last (filter (\<lambda>c'. commonCurrencyCode h c' = commonCurrencyCode h c) cs)"

definition balance_entry :: "host \<Rightarrow> jsval \<Rightarrow> string \<Rightarrow> jsval \<Rightarrow> bool" where
  "balance_entry h balance c entry =
     (let free = get entry ''free'';
          used = get entry ''used''
      in free = (if listed balance ''available'' c
                 then js_parseFloat h (get (get balance ''available'') c) else Num (Fin 0))
       \<and> used = (if listed balance ''locked'' c
                 then js_parseFloat h (get (get balance ''locked'') c) else Num (Fin 0))
       \<and> get entry ''total'' = Num (js_add (ToNumber h free) (ToNumber h used))
       \<and> (\<not> listed balance ''available'' c \<and> \<not> listed balance ''locked'' c
            \<longrightarrow> free = Num (Fin 0) \<and> used = Num (Fin 0) \<and> get entry ''total'' = Num (Fin 0)))"

text \<open>
  A balance response the loop of \<^verbatim>\<open>fetchBalance\<close> can read: an object (or an array) whose
  \<^verbatim>\<open>available\<close> and \<^verbatim>\<open>locked\<close> properties, where it has them, are objects (or arrays).
\<close>

definition readable_balance :: "jsval \<Rightarrow> bool" where
  "readable_balance balance =
     (is_object balance
      \<and> (if js_in ''available'' balance = Inr True then is_object (get balance ''available'')
          else True)
      \<and> (if js_in ''locked'' balance = Inr True then is_object (get balance ''locked'')
          else True))"

section \<open>Facts about the helpers\<close>

lemma isFinite_iff: "isFinite n \<longleftrightarrow> (\<exists>r. n = Fin r)"
  by (cases n) auto

lemma js_add_zero: "js_add (Fin 0) x = x"
  by (cases x) auto

lemma numeric_iff:
  "numeric h v \<longleftrightarrow>
     (\<exists>r. v = Num (Fin r)) \<or> (\<exists>s r. v = Str s \<and> parseFloat_str h s = Fin r)"
  by (cases v) (auto simp: numeric_def isFinite_iff)

lemma safeFloat_numeric:
  "safeFloat h obj k Undefined
     = (if numeric h (js_prop obj k) then Num (asFloat h (js_prop obj k)) else Undefined)"
  by (simp add: safeFloat_def numeric_def)

lemma truthy_safeFloat:
  "truthy (safeFloat h obj k Undefined)
     \<longleftrightarrow> (\<exists>r. asFloat h (js_prop obj k) = Fin r \<and> r \<noteq> 0)"
  by (auto simp: safeFloat_numeric numeric_def isFinite_iff)

lemma sum_js_two: "sum_js h [Num a, Num b] = Num (js_add a b)"
  by (simp add: sum_js_def js_plus_def js_add_zero)

lemma safeString_cases:
  "safeString h obj k d
     = (if nullish (js_prop obj k) then d else Str (ToString h (js_prop obj k)))"
  by (simp add: safeString_def)

lemma map_of_assign: "map_of (assign kvs k v) = (map_of kvs)(k \<mapsto> v)"
  by (induction kvs) (auto simp: fun_eq_iff)

section \<open>C1: the timestamps of the trade normalizers and of the private trade history\<close>

text \<open>
  The two normalizers, each on its own. For a public trade record whose date string
  \<^verbatim>\<open>parse8601\<close> reads as the number \<open>t\<close>, \<^verbatim>\<open>parseTrade\<close> gives the timestamp \<open>t - 28800000\<close>.
  For a private record, \<^verbatim>\<open>parseMyTrade\<close> gives the raw \<^verbatim>\<open>time_unix\<close> field, as a number, times
  1000, with no further correction. So when the two records name the same nominal time (the
  date parses to \<open>time_unix * 1000\<close>), the two timestamps differ by 28800000 ms.
\<close>

lemma normalizer_timestamps:
  "(\<not> nullish trade \<and> \<not> nullish mkt \<and> parse8601 h (get trade ''date'') = Num (Fin t)
      \<longrightarrow> field ''timestamp'' (parseTrade h trade mkt) = Inr (Num (Fin (t - 28800000))))
   \<and> (\<not> nullish mytrade \<and> \<not> nullish mkt
      \<longrightarrow> field ''timestamp'' (parseMyTrade h mytrade mkt)
            = Inr (Num (js_mul (ToNumber h (get mytrade ''time_unix'')) (Fin 1000))))
   \<and> (\<not> nullish mytrade \<and> \<not> nullish mkt \<and> get mytrade ''time_unix'' = Num (Fin u)
      \<longrightarrow> field ''timestamp'' (parseMyTrade h mytrade mkt) = Inr (Num (Fin (u * 1000))))
   \<and> (\<not> nullish trade \<and> \<not> nullish mytrade \<and> \<not> nullish mkt
        \<and> parse8601 h (get trade ''date'') = Num (Fin (u * 1000))
        \<and> get mytrade ''time_unix'' = Num (Fin u)
      \<longrightarrow> (\<exists>public private.
             field ''timestamp'' (parseTrade h trade mkt) = Inr (Num (Fin public))
           \<and> field ''timestamp'' (parseMyTrade h mytrade mkt) = Inr (Num (Fin private))
           \<and> private - public = 28800000))"
  by (simp add: field_def parseTrade_def parseMyTrade_def Let_def js_minus_def js_times_def
        js_sub_def)

text \<open>
  The private trade history, for every host. Of the two definitions of \<^verbatim>\<open>fetchMyTrades\<close> in
  the class body the later one is the method of the class, and whatever it returns is what
  \<^verbatim>\<open>parseTrades\<close> returns for the \<^verbatim>\<open>trades\<close> of the response: the method that \<^verbatim>\<open>fetchTrades\<close>
  calls for the public feed. \<^verbatim>\<open>parseMyTrade\<close> is called by the earlier definition only, which
  the later one replaces.
\<close>

lemma fetchMyTrades_parseTrades:
  assumes "fetchMyTrades h symbol since limit params = (calls, Inr out)"
  shows "\<exists>mkt request response.
           market h symbol = Inr mkt
         \<and> privatePostTradeHistory h request = Inr response
         \<and> parseTrades h (get response ''trades'') mkt since limit = Inr out"
  using assms
  by (auto simp: fetchMyTrades_def Let_def split: if_splits sum.splits)

text \<open>
  Claim C1. The claim holds of the two normalizers, and fails on the authenticated path of
  the class. The trade-history endpoint answers with one record, dated
  \<^verbatim>\<open>2018-01-01 08:00:00\<close>, whose \<^verbatim>\<open>time_unix\<close> is 1514793600, the second that date names.
  \<^verbatim>\<open>fetchMyTrades\<close> returns it with the timestamp 1514764800000: the date, parsed, minus eight
  hours, as for a public trade. The claim asks for \<^verbatim>\<open>time_unix\<close> times 1000, which is
  1514793600000 and what \<^verbatim>\<open>parseMyTrade\<close> gives for the record.
\<close>

theorem fetchMyTrades_timestamp:
  "field ''timestamp''
     (field ''0''
        (snd (fetchMyTrades example_trading_host (Str ''BTC/USDT'') Undefined Undefined (Obj []))))
     = Inr (Num (Fin 1514764800000))
   \<and> get example_my_trade ''time_unix'' = Num (Fin 1514793600)
   \<and> field ''timestamp'' (parseMyTrade example_trading_host example_my_trade example_market)
     = Inr (Num (Fin 1514793600000))"
  by (simp add: fetchMyTrades_def example_trading_host_def example_dating_host_def
        example_host_def example_market_def example_my_trade_def parseTrades_base_def
        parseTrade_def parseMyTrade_def js_minus_def js_times_def js_sub_def
        field_def indexed_def index_of_key_def digit_of_def extend_def Let_def)

section \<open>C2: the error classifier\<close>

lemma handleErrors_parsed:
  assumes "JSON_parse h body = Some parsed" and "body = CHR ''{'' # cs"
  shows "handleErrors h body =
     (if safeString h parsed ''result'' (Str '''') \<noteq> Str ''false'' then Inr ()
      else if safeString h parsed ''code'' Undefined = Undefined then Inr ()
      else if \<not> in_table (ToString h (safeString h parsed ''code'' Undefined)) exceptions
      then Inr ()
      else case map_of exceptions (ToString h (safeString h parsed ''code'' Undefined)) of
             Some exception \<Rightarrow>
               Inl (exception (ToString h
                 (if in_table (ToString h (safeString h parsed ''code'' Undefined)) errorCodeNames
                  then (case map_of errorCodeNames
                               (ToString h (safeString h parsed ''code'' Undefined)) of
                          Some name \<Rightarrow> Str name
                        | None \<Rightarrow> get (Obj []) (ToString h (safeString h parsed ''code'' Undefined)))
                  else safeString h parsed ''message'' (Str ''(unknown)''))))
           | None \<Rightarrow>
               Inl (new_inherited (ToString h (safeString h parsed ''code'' Undefined))
                 (if in_table (ToString h (safeString h parsed ''code'' Undefined)) errorCodeNames
                  then (case map_of errorCodeNames
                               (ToString h (safeString h parsed ''code'' Undefined)) of
                          Some name \<Rightarrow> Str name
                        | None \<Rightarrow> get (Obj []) (ToString h (safeString h parsed ''code'' Undefined)))
                  else safeString h parsed ''message'' (Str ''(unknown)''))))"
  using assms by (simp add: handleErrors_def Let_def)

lemma handleErrors_not_object:
  "body = [] \<or> hd body \<noteq> CHR ''{'' \<Longrightarrow> handleErrors h body = Inr ()"
  by (cases body) (auto simp: handleErrors_def)

lemma handleErrors_cases:
  obtains "body = [] \<or> hd body \<noteq> CHR ''{''"
  | cs where "body = CHR ''{'' # cs"
  by (cases body) auto

lemma safeString_Bool:
  "js_prop obj k = Bool b \<Longrightarrow> safeString h obj k d = Str (if b then ''true'' else ''false'')"
  by (simp add: safeString_def)

lemma in_table_exceptions:
  "in_table code exceptions \<longleftrightarrow> map_of exceptions code \<noteq> None \<or> code \<in> set Object_prototype"
  by (simp add: in_table_def)

lemma exceptions_named:
  "map_of exceptions code = Some exception \<Longrightarrow> \<exists>name. map_of errorCodeNames code = Some name"
  by (auto simp: exceptions_def errorCodeNames_def split: if_splits)

text \<open>
  Claim C2. The classifier returns without raising when the body is empty or does not
  start with \<^verbatim>\<open>{\<close>, and when the \<^verbatim>\<open>result\<close> field of the parsed body does not read as
  \<^verbatim>\<open>"false"\<close>: the field is read as a string (with default \<^verbatim>\<open>''\<close>), so a missing or \<^verbatim>\<open>null\<close>
  field, a string other than \<^verbatim>\<open>"false"\<close> and the boolean \<^verbatim>\<open>true\<close> pass, while the boolean
  \<^verbatim>\<open>false\<close> reads as \<^verbatim>\<open>"false"\<close> and is classified like the string. For a result that reads
  as \<^verbatim>\<open>"false"\<close> and a code that is a key of the table \<^verbatim>\<open>exceptions\<close>, it raises the error class
  the table gives for that code, with the text \<^verbatim>\<open>errorCodeNames\<close> has for it: for \<^verbatim>\<open>"21"\<close>,
  InsufficientFunds. For a missing code, and for a code that is neither a key of the table
  nor the name of a property every object inherits, it returns without raising. What it
  raises for any other code is a table entry, or the SyntaxError of \<^verbatim>\<open>JSON.parse\<close> on a body
  that starts with \<^verbatim>\<open>{\<close> and is not JSON.
\<close>

theorem handleErrors_classifies:
  "(body = [] \<or> hd body \<noteq> CHR ''{'' \<longrightarrow> handleErrors h body = Inr ())
   \<and> (JSON_parse h body = Some parsed
        \<and> safeString h parsed ''result'' (Str '''') \<noteq> Str ''false''
        \<longrightarrow> handleErrors h body = Inr ())
   \<and> (JSON_parse h body = Some parsed
        \<and> (nullish (js_prop parsed ''result'')
            \<or> (\<exists>s. js_prop parsed ''result'' = Str s \<and> s \<noteq> ''false'')
            \<or> js_prop parsed ''result'' = Bool True)
        \<longrightarrow> handleErrors h body = Inr ())
   \<and> (hd body = CHR ''{'' \<and> body \<noteq> [] \<and> JSON_parse h body = Some parsed
        \<and> safeString h parsed ''result'' (Str '''') = Str ''false''
        \<and> safeString h parsed ''code'' Undefined = Str code
        \<and> map_of exceptions code = Some exception
        \<longrightarrow> (\<exists>name. map_of errorCodeNames code = Some name
                \<and> handleErrors h body = Inl (exception name)))
   \<and> (hd body = CHR ''{'' \<and> body \<noteq> [] \<and> JSON_parse h body = Some parsed
        \<and> (js_prop parsed ''result'' = Str ''false'' \<or> js_prop parsed ''result'' = Bool False)
        \<and> js_prop parsed ''code'' = Str ''21''
        \<longrightarrow> handleErrors h body
              = Inl (InsufficientFunds (''You don'' @ [CHR 0x27] @ ''t have enough fund'')))
   \<and> (JSON_parse h body = Some parsed
        \<and> (safeString h parsed ''code'' Undefined = Undefined
            \<or> (map_of exceptions (ToString h (safeString h parsed ''code'' Undefined)) = None
               \<and> ToString h (safeString h parsed ''code'' Undefined) \<notin> set Object_prototype))
        \<longrightarrow> handleErrors h body = Inr ())
   \<and> (handleErrors h body = Inl e
        \<longrightarrow> e = SyntaxError
            \<or> (\<exists>known exception message.
                  map_of exceptions known = Some exception \<and> e = exception message)
            \<or> (\<exists>parsed'. JSON_parse h body = Some parsed'
                  \<and> ToString h (safeString h parsed' ''code'' Undefined) \<in> set Object_prototype))"
proof (intro conjI impI)
  assume "body = [] \<or> hd body \<noteq> CHR ''{''"
  then show "handleErrors h body = Inr ()"
    by (rule handleErrors_not_object)
next
  assume a: "JSON_parse h body = Some parsed
    \<and> safeString h parsed ''result'' (Str '''') \<noteq> Str ''false''"
  show "handleErrors h body = Inr ()"
  proof (cases body rule: handleErrors_cases)
    case 1
    then show ?thesis by (rule handleErrors_not_object)
  next
    case (2 cs)
    with a show ?thesis by (simp add: handleErrors_parsed)
  qed
next
  assume a: "JSON_parse h body = Some parsed
        \<and> (nullish (js_prop parsed ''result'')
            \<or> (\<exists>s. js_prop parsed ''result'' = Str s \<and> s \<noteq> ''false'')
            \<or> js_prop parsed ''result'' = Bool True)"
  then have read: "safeString h parsed ''result'' (Str '''') \<noteq> Str ''false''"
    by (auto simp: safeString_cases safeString_Bool)
  show "handleErrors h body = Inr ()"
  proof (cases body rule: handleErrors_cases)
    case 1
    then show ?thesis by (rule handleErrors_not_object)
  next
    case (2 cs)
    with a read show ?thesis by (simp add: handleErrors_parsed)
  qed
next
  assume a: "hd body = CHR ''{'' \<and> body \<noteq> [] \<and> JSON_parse h body = Some parsed
        \<and> safeString h parsed ''result'' (Str '''') = Str ''false''
        \<and> safeString h parsed ''code'' Undefined = Str code
        \<and> map_of exceptions code = Some exception"
  then obtain cs where body: "body = CHR ''{'' # cs" by (cases body) auto
  from a obtain name where name: "map_of errorCodeNames code = Some name"
    using exceptions_named [of code exception] by auto
  from a body name have "handleErrors h body = Inl (exception name)"
    by (simp add: handleErrors_parsed in_table_def)
  with name show "\<exists>name. map_of errorCodeNames code = Some name
                \<and> handleErrors h body = Inl (exception name)"
    by simp
next
  assume a: "hd body = CHR ''{'' \<and> body \<noteq> [] \<and> JSON_parse h body = Some parsed
        \<and> (js_prop parsed ''result'' = Str ''false'' \<or> js_prop parsed ''result'' = Bool False)
        \<and> js_prop parsed ''code'' = Str ''21''"
  then obtain cs where body: "body = CHR ''{'' # cs" by (cases body) auto
  from a have result: "safeString h parsed ''result'' (Str '''') = Str ''false''"
    by (auto simp: safeString_cases safeString_Bool)
  from a have code: "safeString h parsed ''code'' Undefined = Str ''21''"
    by (simp add: safeString_cases)
  have "map_of exceptions ''21'' = Some InsufficientFunds"
    by (simp add: exceptions_def)
  moreover have "map_of errorCodeNames ''21'' = Some (''You don'' @ [CHR 0x27] @ ''t have enough fund'')"
    by (simp add: errorCodeNames_def)
  ultimately show "handleErrors h body
              = Inl (InsufficientFunds (''You don'' @ [CHR 0x27] @ ''t have enough fund''))"
    using a body result code by (simp add: handleErrors_parsed in_table_def)
next
  assume a: "JSON_parse h body = Some parsed
        \<and> (safeString h parsed ''code'' Undefined = Undefined
            \<or> (map_of exceptions (ToString h (safeString h parsed ''code'' Undefined)) = None
               \<and> ToString h (safeString h parsed ''code'' Undefined) \<notin> set Object_prototype))"
  show "handleErrors h body = Inr ()"
  proof (cases body rule: handleErrors_cases)
    case 1
    then show ?thesis by (rule handleErrors_not_object)
  next
    case (2 cs)
    with a show ?thesis by (auto simp: handleErrors_parsed in_table_def)
  qed
next
  assume raised: "handleErrors h body = Inl e"
  show "e = SyntaxError
      \<or> (\<exists>known exception message.
            map_of exceptions known = Some exception \<and> e = exception message)
      \<or> (\<exists>parsed'. JSON_parse h body = Some parsed'
            \<and> ToString h (safeString h parsed' ''code'' Undefined) \<in> set Object_prototype)"
  proof (cases body rule: handleErrors_cases)
    case 1
    then have "handleErrors h body = Inr ()" by (rule handleErrors_not_object)
    with raised show ?thesis by simp
  next
    case (2 cs)
    show ?thesis
    proof (cases "JSON_parse h body")
      case None
      with 2 raised show ?thesis by (simp add: handleErrors_def)
    next
      case (Some parsed')
      show ?thesis
      proof (cases "map_of exceptions (ToString h (safeString h parsed' ''code'' Undefined))")
        case None
        with raised Some have
          "ToString h (safeString h parsed' ''code'' Undefined) \<in> set Object_prototype"
          unfolding handleErrors_parsed [OF Some 2]
          by (simp add: in_table_def split: if_splits)
        with Some show ?thesis by simp
      next
        case (Some exception)
        with raised have "\<exists>message. e = exception message"
          unfolding handleErrors_parsed [OF \<open>JSON_parse h body = Some parsed'\<close> 2]
          by (auto split: if_splits)
        with Some show ?thesis by blast
      qed
    qed
  qed
qed

theorem handleErrors_classifies_witness:
  "handleErrors example_parsing_host '''' = Inr ()
   \<and> handleErrors example_parsing_host ''<html>Bad Gateway</html>'' = Inr ()
   \<and> handleErrors example_parsing_host ''{\"result\":\"true\"}'' = Inr ()
   \<and> handleErrors example_parsing_host ''{\"result\":\"false\",\"code\":\"21\",\"message\":\"x\"}''
       = Inl (InsufficientFunds (''You don'' @ [CHR 0x27] @ ''t have enough fund''))
   \<and> handleErrors example_parsing_host ''{\"result\":\"false\",\"code\":\"99\"}'' = Inr ()"
proof -
  let ?h = example_parsing_host
  let ?ok = "''{\"result\":\"true\"}''"
  let ?funds = "''{\"result\":\"false\",\"code\":\"21\",\"message\":\"x\"}''"
  let ?other = "''{\"result\":\"false\",\"code\":\"99\"}''"
  have ok: "JSON_parse ?h ?ok = Some (Obj [(''result'', Str ''true'')])"
    by (simp add: example_parsing_host_def)
  have funds: "JSON_parse ?h ?funds
      = Some (Obj [(''result'', Str ''false''), (''code'', Str ''21''), (''message'', Str ''x'')])"
    by (simp add: example_parsing_host_def)
  have other: "JSON_parse ?h ?other
      = Some (Obj [(''result'', Str ''false''), (''code'', Str ''99'')])"
    by (simp add: example_parsing_host_def)
  have 1: "handleErrors ?h '''' = Inr ()"
    using handleErrors_classifies [of "''''" ?h] by simp
  have 2: "handleErrors ?h ''<html>Bad Gateway</html>'' = Inr ()"
    using handleErrors_classifies [of "''<html>Bad Gateway</html>''" ?h] by simp
  have 3: "handleErrors ?h ?ok = Inr ()"
    using handleErrors_classifies [of ?ok ?h "Obj [(''result'', Str ''true'')]"] ok
    by (simp add: safeString_cases js_prop_def)
  have 4: "handleErrors ?h ?funds
      = Inl (InsufficientFunds (''You don'' @ [CHR 0x27] @ ''t have enough fund''))"
    using handleErrors_classifies [of ?funds ?h
        "Obj [(''result'', Str ''false''), (''code'', Str ''21''), (''message'', Str ''x'')]"] funds
    by (simp add: js_prop_def)
  have 5: "handleErrors ?h ?other = Inr ()"
    using handleErrors_classifies [of ?other ?h
        "Obj [(''result'', Str ''false''), (''code'', Str ''99'')]"] other
    by (simp add: safeString_cases js_prop_def exceptions_def Object_prototype_def)
  from 1 2 3 4 5 show ?thesis by simp
qed

text \<open>
  The claim as it is written fails at two bodies. The boolean \<^verbatim>\<open>false\<close> is not the literal
  string \<^verbatim>\<open>"false"\<close>, and the body \<^verbatim>\<open>{"result":false,"code":"21"}\<close> raises InsufficientFunds
  all the same. The code \<^verbatim>\<open>"toString"\<close> is no entry of the error-code table, and the body
  \<^verbatim>\<open>{"result":"false","code":"toString"}\<close> raises a TypeError.
\<close>

theorem handleErrors_classifies_counterexample:
  "handleErrors example_parsing_host ''{\"result\":false,\"code\":\"21\"}''
     = Inl (InsufficientFunds (''You don'' @ [CHR 0x27] @ ''t have enough fund''))
   \<and> map_of exceptions ''toString'' = None
   \<and> handleErrors example_parsing_host ''{\"result\":\"false\",\"code\":\"toString\"}''
     = Inl TypeError"
  by (simp add: handleErrors_def example_parsing_host_def example_host_def safeString_def
        js_prop_def in_table_def new_inherited_def exceptions_def errorCodeNames_def
        Object_prototype_def from_Object_def Let_def)

section \<open>C3: the market catalog\<close>

lemma Object_keys_error: "Object_keys v = Inl e \<Longrightarrow> e = TypeError"
  by (cases v) auto

lemma fetchMarkets_entry_error: "fetchMarkets_entry h mkt = Inl e \<Longrightarrow> e = TypeError"
  by (auto simp: fetchMarkets_entry_def Let_def dest: Object_keys_error
        split: sum.splits list.splits if_splits)

lemma fetchMarkets_loop_error: "fetchMarkets_loop h ms acc = Inl e \<Longrightarrow> e = TypeError"
  by (induction ms arbitrary: acc) (auto dest: fetchMarkets_entry_error split: sum.splits)

lemma fetchMarkets_loop_result:
  "fetchMarkets_loop h ms acc = Inr result
    \<Longrightarrow> \<exists>entries. result = acc @ entries
          \<and> list_all2 (\<lambda>mkt entry. fetchMarkets_entry h mkt = Inr entry) ms entries"
proof (induction ms arbitrary: acc)
  case Nil
  then show ?case by simp
next
  case (Cons mkt rest)
  from Cons.prems obtain entry where
    entry: "fetchMarkets_entry h mkt = Inr entry"
    and loop: "fetchMarkets_loop h rest (acc @ [entry]) = Inr result"
    by (auto split: sum.splits)
  from Cons.IH [OF loop] obtain entries where
    "result = (acc @ [entry]) @ entries"
    "list_all2 (\<lambda>mkt entry. fetchMarkets_entry h mkt = Inr entry) rest entries"
    by blast
  with entry have "result = acc @ (entry # entries)
      \<and> list_all2 (\<lambda>mkt entry. fetchMarkets_entry h mkt = Inr entry) (mkt # rest) (entry # entries)"
    by simp
  then show ?case by blast
qed

lemma fetchMarkets_pairs:
  assumes "publicGetMarketinfo h = Inr response" and "js_prop response ''pairs'' = Arr ms"
  shows "fetchMarkets h
     = (case fetchMarkets_loop h ms [] of Inl e \<Rightarrow> Inl e | Inr result \<Rightarrow> Inr (Arr result))"
  using assms by (simp add: fetchMarkets_def safeValue_def)

lemma cost_min_lookup:
  "safeFloat h options_limits_cost_min quote' d
     = (if quote' = ''BTC'' then Num (Fin (1 / 10000))
        else if quote' = ''ETH'' then Num (Fin (1 / 1000))
        else if quote' = ''USDT'' then Num (Fin 1)
        else d)"
  by (simp add: safeFloat_def options_limits_cost_min_def js_prop_def)

lemma Math_pow_integral:
  "of_int \<lfloor>r\<rfloor> = r
    \<Longrightarrow> Math_pow h (Num (Fin 10)) (js_negate h (Num (Fin r))) = Num (Fin (10 powi (- \<lfloor>r\<rfloor>)))"
proof -
  assume r: "of_int \<lfloor>r\<rfloor> = r"
  then have "\<lfloor>- r\<rfloor> = - \<lfloor>r\<rfloor>"
    by (metis floor_of_int of_int_minus)
  with r show ?thesis
    by (simp add: Math_pow_def js_negate_def)
qed

lemma fetchMarkets_entry_record:
  assumes "fetchMarkets_entry h mkt = Inr entry"
  shows "catalog_record h mkt entry"
proof -
  from assms obtain id' others where keys: "Object_keys mkt = Inr (id' # others)"
    by (auto simp: fetchMarkets_entry_def split: sum.splits list.splits)
  with assms obtain base0 quote0 rest where parts: "split_on CHR ''_'' id' = base0 # quote0 # rest"
    by (auto simp: fetchMarkets_entry_def Let_def split: list.splits)
  from assms keys parts have details: "\<not> nullish (get mkt id')"
    by (auto simp: fetchMarkets_entry_def Let_def split: if_splits)
  from assms keys parts details have entry: "entry = Obj
     [(''id'', Str id'),
      (''symbol'', Str (commonCurrencyCode h (toUpperCase base0) @ ''/''
                        @ commonCurrencyCode h (toUpperCase quote0))),
      (''base'', Str (commonCurrencyCode h (toUpperCase base0))),
      (''quote'', Str (commonCurrencyCode h (toUpperCase quote0))),
      (''info'', mkt),
      (''maker'', js_over h (get (get mkt id') ''fee'') (Num (Fin 100))),
      (''taker'', js_over h (get (get mkt id') ''fee'') (Num (Fin 100))),
      (''precision'',
         Obj [(''amount'', Num (Fin 8)),
              (''price'', get (get mkt id') ''decimal_places'')]),
      (''limits'',
         Obj [(''amount'', Obj [(''min'', get (get mkt id') ''min_amount''), (''max'', Undefined)]),
              (''price'',
                 Obj [(''min'', Math_pow h (Num (Fin 10))
                                  (js_negate h (get (get mkt id') ''decimal_places''))),
                      (''max'', Undefined)]),
              (''cost'',
                 Obj [(''min'',
                         safeFloat h options_limits_cost_min
                           (commonCurrencyCode h (toUpperCase quote0))
                           (js_times h (get (get mkt id') ''min_amount'')
                              (Math_pow h (Num (Fin 10))
                                 (js_negate h (get (get mkt id') ''decimal_places''))))),
                      (''max'', Undefined)])])]"
    by (simp add: fetchMarkets_entry_def Let_def)
  show ?thesis
    unfolding entry
    by (simp add: catalog_record_def keys parts Let_def cost_min_lookup Math_pow_integral
          split: jsval.splits jsnum.splits)
qed

lemma fetchMarkets_entry_valid:
  "valid_pair mkt \<Longrightarrow> \<exists>entry. fetchMarkets_entry h mkt = Inr entry"
  by (auto simp: valid_pair_def fetchMarkets_entry_def Let_def split: sum.splits list.splits)

lemma fetchMarkets_loop_valid:
  "\<forall>mkt\<in>set ms. valid_pair mkt \<Longrightarrow> \<exists>result. fetchMarkets_loop h ms acc = Inr result"
proof (induction ms arbitrary: acc)
  case Nil
  then show ?case by simp
next
  case (Cons mkt rest)
  then obtain entry where "fetchMarkets_entry h mkt = Inr entry"
    using fetchMarkets_entry_valid [of mkt h] by auto
  with Cons show ?case by simp
qed

text \<open>
  Claim C3. For a \<^verbatim>\<open>pairs\<close> list whose records each hold their details under a first key
  of the form \<^verbatim>\<open>base_quote\<close> (\<open>valid_pair\<close>), \<^verbatim>\<open>fetchMarkets\<close> returns a catalog. Whenever
  it returns a catalog for a \<^verbatim>\<open>pairs\<close> list, it emits one
  market per pair record, in order, and each satisfies \<open>catalog_record\<close>: its symbol is
  \<open>base @ ''/'' @ quote\<close> for the upper-cased, canonicalized parts of the pair id split
  on \<^verbatim>\<open>_\<close>; \<^verbatim>\<open>precision.price\<close> is the record's \<^verbatim>\<open>decimal_places\<close>; \<^verbatim>\<open>limits.price.min\<close> is
  \<^verbatim>\<open>Math.pow (10, -decimal_places)\<close>, which is 10 to the power \<^verbatim>\<open>-decimal_places\<close> for an
  integral \<^verbatim>\<open>decimal_places\<close>; and \<^verbatim>\<open>limits.cost.min\<close> is the table entry of the quote (BTC:
  0.0001, ETH: 0.001, USDT: 1) and \<^verbatim>\<open>min_amount\<close> times \<^verbatim>\<open>limits.price.min\<close> for a quote
  outside the table.
\<close>

theorem fetchMarkets_catalog:
  "(publicGetMarketinfo h = Inr response \<and> js_prop response ''pairs'' = Arr ms
      \<and> (\<forall>mkt\<in>set ms. valid_pair mkt)
    \<longrightarrow> (\<exists>returned. fetchMarkets h = Inr returned))
   \<and> (publicGetMarketinfo h = Inr response \<and> js_prop response ''pairs'' = Arr ms
      \<and> fetchMarkets h = Inr out
    \<longrightarrow> (\<exists>result. out = Arr result \<and> length result = length ms
          \<and> (\<forall>i<length ms. catalog_record h (ms ! i) (result ! i))))"
proof (intro conjI impI)
  assume a: "publicGetMarketinfo h = Inr response \<and> js_prop response ''pairs'' = Arr ms
      \<and> (\<forall>mkt\<in>set ms. valid_pair mkt)"
  then obtain result where "fetchMarkets_loop h ms [] = Inr result"
    using fetchMarkets_loop_valid [of ms h "[]"] by auto
  with a show "\<exists>returned. fetchMarkets h = Inr returned"
    using fetchMarkets_pairs [of h response ms] by simp
next
  assume a: "publicGetMarketinfo h = Inr response \<and> js_prop response ''pairs'' = Arr ms
     \<and> fetchMarkets h = Inr out"
  then have "(case fetchMarkets_loop h ms [] of Inl e \<Rightarrow> Inl e | Inr result \<Rightarrow> Inr (Arr result))
      = Inr out"
    using fetchMarkets_pairs [of h response ms] by simp
  then obtain result where out: "out = Arr result"
    and loop: "fetchMarkets_loop h ms [] = Inr result"
    by (auto split: sum.splits)
  from fetchMarkets_loop_result [OF loop]
  have all: "list_all2 (\<lambda>mkt entry. fetchMarkets_entry h mkt = Inr entry) ms result"
    by simp
  then have "length result = length ms"
    by (simp add: list_all2_lengthD)
  moreover from all have "\<forall>i<length ms. catalog_record h (ms ! i) (result ! i)"
    by (auto simp: list_all2_conv_all_nth intro: fetchMarkets_entry_record)
  ultimately show "\<exists>result. out = Arr result \<and> length result = length ms
          \<and> (\<forall>i<length ms. catalog_record h (ms ! i) (result ! i))"
    using out by blast
qed

lemma toUpperCase_examples:
  "toUpperCase ''btc'' = ''BTC''" "toUpperCase ''usdt'' = ''USDT''"
  "toUpperCase ''doge'' = ''DOGE''" "toUpperCase ''cnyx'' = ''CNYX''"
  "toUpperCase ''eth'' = ''ETH''"
  by code_simp+

theorem fetchMarkets_catalog_witness:
  "field ''symbol'' (field ''0'' (fetchMarkets example_catalog_host)) = Inr (Str ''BTC/USDT'')
   \<and> field ''price'' (field ''precision'' (field ''0'' (fetchMarkets example_catalog_host)))
       = Inr (Num (Fin 2))
   \<and> field ''min'' (field ''price'' (field ''limits'' (field ''0'' (fetchMarkets example_catalog_host))))
       = Inr (Num (Fin (1 / 100)))
   \<and> field ''min'' (field ''cost'' (field ''limits'' (field ''0'' (fetchMarkets example_catalog_host))))
       = Inr (Num (Fin 1))
   \<and> field ''symbol'' (field ''2'' (fetchMarkets example_catalog_host)) = Inr (Str ''DOGE/CNYX'')
   \<and> field ''min'' (field ''cost'' (field ''limits'' (field ''2'' (fetchMarkets example_catalog_host))))
       = Inr (Num (Fin (1 / 1000)))"
proof -
  let ?h = example_catalog_host
  let ?ms = "[Obj [(''btc_usdt'',
                          Obj [(''decimal_places'', Num (Fin 2)),
                               (''min_amount'', Num (Fin (1 / 10000))),
                               (''fee'', Num (Fin (1 / 5)))])],
                  Obj [(''eth_btc'',
                          Obj [(''decimal_places'', Num (Fin 6)),
                               (''min_amount'', Num (Fin (1 / 1000))),
                               (''fee'', Num (Fin (1 / 5)))])],
                  Obj [(''doge_cnyx'',
                          Obj [(''decimal_places'', Num (Fin 4)),
                               (''min_amount'', Num (Fin 10)),
                               (''fee'', Num (Fin (1 / 5)))])]]"
  have response: "publicGetMarketinfo ?h = Inr example_catalog"
    by (simp add: example_catalog_host_def example_host_def)
  have pairs: "js_prop example_catalog ''pairs'' = Arr ?ms"
    by (simp add: example_catalog_def js_prop_def)
  have valid: "\<forall>mkt\<in>set ?ms. valid_pair mkt"
    by (simp add: valid_pair_def)
  have code: "commonCurrencyCode ?h = (\<lambda>c. c)"
    by (simp add: example_catalog_host_def example_host_def)
  from fetchMarkets_catalog [of ?h example_catalog ?ms] response pairs valid
  obtain out where out: "fetchMarkets ?h = Inr out"
    by blast
  from fetchMarkets_catalog [of ?h example_catalog ?ms out] response pairs out
  obtain result where result: "out = Arr result" "length result = 3"
    and records: "\<forall>i<3. catalog_record ?h (?ms ! i) (result ! i)"
    by auto
  from result(2) obtain e0 e1 e2 where elements: "result = [e0, e1, e2]"
    by (auto simp: length_Suc_conv numeral_3_eq_3)
  from records [rule_format, of 0] have "catalog_record ?h (?ms ! 0) (result ! 0)"
    by simp
  then have first:
    "get e0 ''symbol'' = Str ''BTC/USDT''"
    "get (get e0 ''precision'') ''price'' = Num (Fin 2)"
    "get (get (get e0 ''limits'') ''price'') ''min'' = Num (Fin (1 / 100))"
    "get (get (get e0 ''limits'') ''cost'') ''min'' = Num (Fin 1)"
    by (auto simp: catalog_record_def elements code toUpperCase_examples Let_def
          Math_pow_def js_negate_def)
  from records [rule_format, of 2] have "catalog_record ?h (?ms ! 2) (result ! 2)"
    by simp
  then have third:
    "get e2 ''symbol'' = Str ''DOGE/CNYX''"
    "get (get (get e2 ''limits'') ''cost'') ''min'' = Num (Fin (1 / 1000))"
    by (auto simp: catalog_record_def elements code toUpperCase_examples Let_def
          js_times_def Math_pow_def js_negate_def)
  from out result(1) elements first third show ?thesis
    by (simp add: field_def indexed_def index_of_key_def digit_of_def)
qed

section \<open>C4: a catalog response without its list\<close>

text \<open>
  Claim C4, as the code has it. When the catalog response has no \<^verbatim>\<open>pairs\<close> field, or a
  \<^verbatim>\<open>pairs\<close> field that is \<^verbatim>\<open>null\<close> or otherwise falsy, \<^verbatim>\<open>fetchMarkets\<close> raises ExchangeError,
  the generic kind. When the field is present and truthy it does not raise that error:
  the only error left is the TypeError of a malformed element, and an empty list gives an
  empty catalog.
\<close>

theorem fetchMarkets_unrecognized:
  "(publicGetMarketinfo h = Inr response
      \<and> \<not> truthy (safeValue response ''pairs'' Undefined)
    \<longrightarrow> fetchMarkets h
          = Inl (ExchangeError ''gateio fetchMarkets got an unrecognized response''))
   \<and> (\<not> truthy (safeValue response ''pairs'' Undefined)
        \<longleftrightarrow> js_prop response ''pairs'' = Undefined \<or> js_prop response ''pairs'' = Null
          \<or> js_prop response ''pairs'' = Bool False \<or> js_prop response ''pairs'' = Num (Fin 0)
          \<or> js_prop response ''pairs'' = Num NaN \<or> js_prop response ''pairs'' = Str [])
   \<and> kind_name (ExchangeError ''gateio fetchMarkets got an unrecognized response'')
        = ''ExchangeError''
   \<and> (publicGetMarketinfo h = Inr response
      \<and> truthy (safeValue response ''pairs'' Undefined)
    \<longrightarrow> (case fetchMarkets h of Inl e \<Rightarrow> e = TypeError | Inr out \<Rightarrow> True))
   \<and> (publicGetMarketinfo h = Inr response \<and> js_prop response ''pairs'' = Arr []
    \<longrightarrow> fetchMarkets h = Inr (Arr []))"
proof (intro conjI impI)
  assume "publicGetMarketinfo h = Inr response
      \<and> \<not> truthy (safeValue response ''pairs'' Undefined)"
  then show "fetchMarkets h
          = Inl (ExchangeError ''gateio fetchMarkets got an unrecognized response'')"
    by (simp add: fetchMarkets_def this_id_def)
next
  show "\<not> truthy (safeValue response ''pairs'' Undefined)
        \<longleftrightarrow> js_prop response ''pairs'' = Undefined \<or> js_prop response ''pairs'' = Null
          \<or> js_prop response ''pairs'' = Bool False \<or> js_prop response ''pairs'' = Num (Fin 0)
          \<or> js_prop response ''pairs'' = Num NaN \<or> js_prop response ''pairs'' = Str []"
    by (cases "js_prop response ''pairs''") (auto simp: safeValue_def)
next
  show "kind_name (ExchangeError ''gateio fetchMarkets got an unrecognized response'')
        = ''ExchangeError''"
    by simp
next
  assume "publicGetMarketinfo h = Inr response
      \<and> truthy (safeValue response ''pairs'' Undefined)"
  then show "case fetchMarkets h of Inl e \<Rightarrow> e = TypeError | Inr out \<Rightarrow> True"
    by (auto simp: fetchMarkets_def dest: fetchMarkets_loop_error split: sum.splits option.splits)
next
  assume "publicGetMarketinfo h = Inr response \<and> js_prop response ''pairs'' = Arr []"
  then show "fetchMarkets h = Inr (Arr [])"
    using fetchMarkets_pairs [of h response "[]"] by simp
qed

theorem fetchMarkets_unrecognized_witness:
  "fetchMarkets example_host
     = Inl (ExchangeError ''gateio fetchMarkets got an unrecognized response'')
   \<and> fetchMarkets (example_host \<lparr> publicGetMarketinfo := Inr (Obj [(''pairs'', Arr [])]) \<rparr>)
     = Inr (Arr [])"
proof -
  have 1: "fetchMarkets example_host
     = Inl (ExchangeError ''gateio fetchMarkets got an unrecognized response'')"
    using fetchMarkets_unrecognized [of example_host "Obj []"]
    by (simp add: example_host_def safeValue_def js_prop_def)
  have 2: "fetchMarkets (example_host \<lparr> publicGetMarketinfo := Inr (Obj [(''pairs'', Arr [])]) \<rparr>)
     = Inr (Arr [])"
    using fetchMarkets_unrecognized [of
        "example_host \<lparr> publicGetMarketinfo := Inr (Obj [(''pairs'', Arr [])]) \<rparr>"
        "Obj [(''pairs'', Arr [])]"]
    by (simp add: js_prop_def)
  from 1 2 show ?thesis by simp
qed

text \<open>
  The claim as it was stated fails twice. A response without \<^verbatim>\<open>pairs\<close> raises
  ExchangeError, which is not the spec's ConfigurationError; and a response whose
  \<^verbatim>\<open>pairs\<close> list holds the empty record \<^verbatim>\<open>{}\<close> raises a TypeError, where the claim promises
  no error.
\<close>

theorem fetchMarkets_unrecognized_counterexample:
  "fetchMarkets example_host
     = Inl (ExchangeError ''gateio fetchMarkets got an unrecognized response'')
   \<and> kind_name (ExchangeError ''gateio fetchMarkets got an unrecognized response'')
       \<noteq> ''ConfigurationError''
   \<and> js_prop (Obj [(''pairs'', Arr [Obj []])]) ''pairs'' = Arr [Obj []]
   \<and> fetchMarkets example_broken_catalog_host = Inl TypeError"
  by (simp add: fetchMarkets_def example_host_def example_broken_catalog_host_def safeValue_def
        js_prop_def this_id_def fetchMarkets_entry_def)

section \<open>C5: the derived fields of a ticker\<close>

text \<open>
  Claim C5. In the ticker \<^verbatim>\<open>parseTicker\<close> returns, each of \<^verbatim>\<open>open\<close>, \<^verbatim>\<open>change\<close> and
  \<^verbatim>\<open>average\<close> is defined if and only if both raw fields \<^verbatim>\<open>last\<close> and \<^verbatim>\<open>percentChange\<close> are
  present and numeric. When they are, with \<open>l\<close> and \<open>p\<close> their values,
  \<open>open = l / (1 + p / 100)\<close>, \<open>change = l - open\<close> and \<open>average = (l + open) / 2\<close>, in
  the arithmetic of the language (and in exact arithmetic as long as \<open>1 + p / 100\<close> is not
  zero). When \<^verbatim>\<open>percentChange\<close> is missing the three are \<^verbatim>\<open>undefined\<close>, while \<^verbatim>\<open>last\<close> and
  \<^verbatim>\<open>close\<close> both hold the last value.
\<close>

theorem parseTicker_derived:
  "(let t = parseTicker h ticker mkt;
        last = js_prop ticker ''last'';
        percentChange = js_prop ticker ''percentChange'';
        l = asFloat h last;
        p = asFloat h percentChange;
        opn = js_div l (js_add (Fin 1) (js_div p (Fin 100)))
    in (get t ''open'' \<noteq> Undefined \<longleftrightarrow> numeric h last \<and> numeric h percentChange)
     \<and> (get t ''change'' \<noteq> Undefined \<longleftrightarrow> numeric h last \<and> numeric h percentChange)
     \<and> (get t ''average'' \<noteq> Undefined \<longleftrightarrow> numeric h last \<and> numeric h percentChange)
     \<and> (numeric h last \<and> numeric h percentChange \<longrightarrow>
           get t ''open'' = Num opn
         \<and> get t ''change'' = Num (js_sub l opn)
         \<and> get t ''average'' = Num (js_div (js_add l opn) (Fin 2)))
     \<and> (\<forall>a b. l = Fin a \<and> p = Fin b \<and> 1 + b / 100 \<noteq> 0 \<longrightarrow>
           get t ''open'' = Num (Fin (a / (1 + b / 100)))
         \<and> get t ''change'' = Num (Fin (a - a / (1 + b / 100)))
         \<and> get t ''average'' = Num (Fin ((a + a / (1 + b / 100)) / 2)))
     \<and> (percentChange = Undefined \<longrightarrow>
           get t ''open'' = Undefined \<and> get t ''change'' = Undefined
         \<and> get t ''average'' = Undefined
         \<and> get t ''last'' = (if numeric h last then Num l else Undefined)
         \<and> get t ''close'' = get t ''last''))"
  by (auto simp: parseTicker_def Let_def safeFloat_numeric sum_js_two js_over_def js_minus_def
        numeric_def isFinite_iff js_sub_def)

theorem parseTicker_derived_witness:
  "get (parseTicker example_host
          (Obj [(''last'', Num (Fin 100)), (''percentChange'', Num (Fin 10))]) Undefined) ''open''
     = Num (Fin (1000 / 11))
   \<and> get (parseTicker example_host
          (Obj [(''last'', Num (Fin 100)), (''percentChange'', Num (Fin 10))]) Undefined) ''change''
     = Num (Fin (100 / 11))
   \<and> get (parseTicker example_host
          (Obj [(''last'', Num (Fin 100)), (''percentChange'', Num (Fin 10))]) Undefined) ''average''
     = Num (Fin (1050 / 11))
   \<and> get (parseTicker example_host (Obj [(''last'', Num (Fin 100))]) Undefined) ''open'' = Undefined
   \<and> get (parseTicker example_host (Obj [(''last'', Num (Fin 100))]) Undefined) ''change'' = Undefined
   \<and> get (parseTicker example_host (Obj [(''last'', Num (Fin 100))]) Undefined) ''average'' = Undefined
   \<and> get (parseTicker example_host (Obj [(''last'', Num (Fin 100))]) Undefined) ''last'' = Num (Fin 100)
   \<and> get (parseTicker example_host (Obj [(''last'', Num (Fin 100))]) Undefined) ''close'' = Num (Fin 100)"
  using parseTicker_derived [of example_host
          "Obj [(''last'', Num (Fin 100)), (''percentChange'', Num (Fin 10))]" Undefined]
        parseTicker_derived [of example_host "Obj [(''last'', Num (Fin 100))]" Undefined]
  by (simp add: Let_def js_prop_def numeric_def js_sub_def)

section \<open>C6: the amount, the remainder and the fee of an order\<close>

text \<open>
  Claim C6, as the code has it. In the order \<^verbatim>\<open>parseOrder\<close> returns, \<^verbatim>\<open>remaining\<close> is
  \<^verbatim>\<open>amount - filled\<close>; \<^verbatim>\<open>amount\<close> is the \<^verbatim>\<open>initialAmount\<close> field, and the \<^verbatim>\<open>amount\<close> field
  when \<^verbatim>\<open>initialAmount\<close> is absent or zero (\<^verbatim>\<open>price\<close> likewise, from \<^verbatim>\<open>initialRate\<close> and
  \<^verbatim>\<open>rate\<close>); the fee is the object with the market's base currency and the value
  \<^verbatim>\<open>amount * feePercentage / 100\<close>, whatever the side of the order, when the
  \<^verbatim>\<open>feePercentage\<close> field is present, numeric and not zero, and \<^verbatim>\<open>undefined\<close> when it is
  absent, not numeric or zero.
\<close>

theorem parseOrder_normalizes:
  "\<not> nullish order \<and> \<not> nullish mkt \<longrightarrow>
   (let initialAmount = safeFloat h order ''initialAmount'' Undefined;
        amount = (if truthy initialAmount then initialAmount
                  else safeFloat h order ''amount'' Undefined);
        initialRate = safeFloat h order ''initialRate'' Undefined;
        price = (if truthy initialRate then initialRate else safeFloat h order ''rate'' Undefined);
        filled = safeFloat h order ''filledAmount'' Undefined;
        feePercentage = safeFloat h order ''feePercentage'' Undefined;
        res = parseOrder h order mkt
    in field ''amount'' res = Inr amount
     \<and> field ''price'' res = Inr price
     \<and> field ''filled'' res = Inr filled
     \<and> field ''remaining'' res = Inr (js_minus h amount filled)
     \<and> (js_prop order ''initialAmount'' = Undefined \<or> js_prop order ''initialAmount'' = Num (Fin 0)
          \<longrightarrow> amount = safeFloat h order ''amount'' Undefined)
     \<and> (js_prop order ''initialRate'' = Undefined \<or> js_prop order ''initialRate'' = Num (Fin 0)
          \<longrightarrow> price = safeFloat h order ''rate'' Undefined)
     \<and> (truthy feePercentage
          \<longleftrightarrow> (\<exists>r. asFloat h (js_prop order ''feePercentage'') = Fin r \<and> r \<noteq> 0))
     \<and> (truthy feePercentage \<longrightarrow>
           field ''fee'' res
             = Inr (Obj [(''currency'', get mkt ''base''),
                         (''value'', js_over h (js_times h amount feePercentage) (Num (Fin 100)))]))
     \<and> (\<forall>a p. amount = Num (Fin a) \<and> feePercentage = Num (Fin p) \<and> p \<noteq> 0 \<longrightarrow>
           field ''fee'' res
             = Inr (Obj [(''currency'', get mkt ''base''), (''value'', Num (Fin (a * p / 100)))]))
     \<and> (\<not> truthy feePercentage \<longrightarrow> field ''fee'' res = Inr Undefined))"
proof (intro impI)
  assume ok: "\<not> nullish order \<and> \<not> nullish mkt"
  have fallback: "\<And>k. js_prop order k = Undefined \<or> js_prop order k = Num (Fin 0)
        \<Longrightarrow> \<not> truthy (safeFloat h order k Undefined)"
    by (auto simp: safeFloat_def)
  from ok show "let initialAmount = safeFloat h order ''initialAmount'' Undefined;
        amount = (if truthy initialAmount then initialAmount
                  else safeFloat h order ''amount'' Undefined);
        initialRate = safeFloat h order ''initialRate'' Undefined;
        price = (if truthy initialRate then initialRate else safeFloat h order ''rate'' Undefined);
        filled = safeFloat h order ''filledAmount'' Undefined;
        feePercentage = safeFloat h order ''feePercentage'' Undefined;
        res = parseOrder h order mkt
    in field ''amount'' res = Inr amount
     \<and> field ''price'' res = Inr price
     \<and> field ''filled'' res = Inr filled
     \<and> field ''remaining'' res = Inr (js_minus h amount filled)
     \<and> (js_prop order ''initialAmount'' = Undefined \<or> js_prop order ''initialAmount'' = Num (Fin 0)
          \<longrightarrow> amount = safeFloat h order ''amount'' Undefined)
     \<and> (js_prop order ''initialRate'' = Undefined \<or> js_prop order ''initialRate'' = Num (Fin 0)
          \<longrightarrow> price = safeFloat h order ''rate'' Undefined)
     \<and> (truthy feePercentage
          \<longleftrightarrow> (\<exists>r. asFloat h (js_prop order ''feePercentage'') = Fin r \<and> r \<noteq> 0))
     \<and> (truthy feePercentage \<longrightarrow>
           field ''fee'' res
             = Inr (Obj [(''currency'', get mkt ''base''),
                         (''value'', js_over h (js_times h amount feePercentage) (Num (Fin 100)))]))
     \<and> (\<forall>a p. amount = Num (Fin a) \<and> feePercentage = Num (Fin p) \<and> p \<noteq> 0 \<longrightarrow>
           field ''fee'' res
             = Inr (Obj [(''currency'', get mkt ''base''), (''value'', Num (Fin (a * p / 100)))]))
     \<and> (\<not> truthy feePercentage \<longrightarrow> field ''fee'' res = Inr Undefined)"
    unfolding Let_def
    by (intro conjI impI allI)
       (simp_all add: field_def parseOrder_def Let_def fallback js_over_def js_times_def,
        rule truthy_safeFloat, auto split: if_splits)
qed

theorem parseOrder_normalizes_witness:
  "field ''amount'' (parseOrder example_host
        (Obj [(''orderNumber'', Str ''7''), (''type'', Str ''sell''),
              (''amount'', Num (Fin 2)), (''filledAmount'', Num (Fin (1 / 2))),
              (''feePercentage'', Num (Fin (1 / 5)))]) example_market) = Inr (Num (Fin 2))
   \<and> field ''remaining'' (parseOrder example_host
        (Obj [(''orderNumber'', Str ''7''), (''type'', Str ''sell''),
              (''amount'', Num (Fin 2)), (''filledAmount'', Num (Fin (1 / 2))),
              (''feePercentage'', Num (Fin (1 / 5)))]) example_market) = Inr (Num (Fin (3 / 2)))
   \<and> field ''fee'' (parseOrder example_host
        (Obj [(''orderNumber'', Str ''7''), (''type'', Str ''sell''),
              (''amount'', Num (Fin 2)), (''filledAmount'', Num (Fin (1 / 2))),
              (''feePercentage'', Num (Fin (1 / 5)))]) example_market)
       = Inr (Obj [(''currency'', Str ''BTC''), (''value'', Num (Fin (1 / 250)))])"
  using parseOrder_normalizes [of
          "Obj [(''orderNumber'', Str ''7''), (''type'', Str ''sell''),
              (''amount'', Num (Fin 2)), (''filledAmount'', Num (Fin (1 / 2))),
              (''feePercentage'', Num (Fin (1 / 5)))]" example_market example_host]
  by (simp add: Let_def example_market_def js_prop_def safeFloat_def js_minus_def js_sub_def
        js_over_def js_times_def)

text \<open>
  The claim as it was stated fails where the \<^verbatim>\<open>feePercentage\<close> field is present and zero:
  the order then has no fee, where the claim promises the fee \<^verbatim>\<open>{ currency: 'BTC', value: 0 }\<close>.
\<close>

theorem parseOrder_fee_counterexample:
  "js_prop (Obj [(''orderNumber'', Str ''7''), (''type'', Str ''sell''),
                 (''initialAmount'', Num (Fin 2)), (''filledAmount'', Num (Fin 1)),
                 (''feePercentage'', Num (Fin 0))]) ''feePercentage'' = Num (Fin 0)
   \<and> field ''fee'' (parseOrder example_host
        (Obj [(''orderNumber'', Str ''7''), (''type'', Str ''sell''),
              (''initialAmount'', Num (Fin 2)), (''filledAmount'', Num (Fin 1)),
              (''feePercentage'', Num (Fin 0))]) example_market) = Inr Undefined
   \<and> field ''fee'' (parseOrder example_host
        (Obj [(''orderNumber'', Str ''7''), (''type'', Str ''sell''),
              (''initialAmount'', Num (Fin 2)), (''filledAmount'', Num (Fin 1)),
              (''feePercentage'', Num (Fin 0))]) example_market)
       \<noteq> Inr (Obj [(''currency'', Str ''BTC''), (''value'', Num (Fin (2 * 0 / 100)))])"
  by (simp add: field_def parseOrder_def example_market_def js_prop_def safeFloat_def Let_def)

section \<open>C7: the deposit address\<close>

lemma is_prefix_iff: "is_prefix p s \<longleftrightarrow> (\<exists>v. s = p @ v)"
  by (induction p s rule: is_prefix.induct) auto

lemma indexOf_from_found:
  "0 \<le> i \<Longrightarrow> 0 \<le> indexOf_from s pat i \<longleftrightarrow> (\<exists>u v. s = u @ pat @ v)"
proof (induction s arbitrary: i)
  case Nil
  then show ?case by auto
next
  case (Cons c cs)
  show ?case
  proof (cases "is_prefix pat (c # cs)")
    case True
    then obtain v where "c # cs = pat @ v" by (auto simp: is_prefix_iff)
    then have "c # cs = [] @ pat @ v" by simp
    then have "\<exists>u v. c # cs = u @ pat @ v" by blast
    with True Cons.prems show ?thesis by simp
  next
    case False
    have "(\<exists>u v. c # cs = u @ pat @ v) \<longleftrightarrow> (\<exists>u v. cs = u @ pat @ v)"
    proof
      assume "\<exists>u v. c # cs = u @ pat @ v"
      then obtain u v where uv: "c # cs = u @ pat @ v" by blast
      show "\<exists>u v. cs = u @ pat @ v"
      proof (cases u)
        case Nil
        with uv False show ?thesis by (auto simp: is_prefix_iff)
      next
        case (Cons a u')
        with uv have "cs = u' @ pat @ v" by simp
        then show ?thesis by blast
      qed
    next
      assume "\<exists>u v. cs = u @ pat @ v"
      then obtain u v where "cs = u @ pat @ v" by blast
      then have "c # cs = (c # u) @ pat @ v" by simp
      then show "\<exists>u v. c # cs = u @ pat @ v" by blast
    qed
    with False Cons.IH [of "i + 1"] Cons.prems show ?thesis by simp
  qed
qed

lemma indexOf_found: "0 \<le> indexOf s pat \<longleftrightarrow> (\<exists>u v. s = u @ pat @ v)"
  by (simp add: indexOf_def indexOf_from_found)

lemma split_on_nonempty: "split_on sep s \<noteq> []"
  by (induction s) (auto split: list.splits)

lemma split_on_none: "sep \<notin> set s \<Longrightarrow> split_on sep s = [s]"
  by (induction s) auto

lemma split_on_first: "sep \<notin> set u \<Longrightarrow> split_on sep (u @ sep # v) = u # split_on sep v"
  by (induction u) auto

lemma hd_split_on: "hd (split_on sep s) = takeWhile (\<lambda>c. c \<noteq> sep) s"
  by (induction s) (auto simp: split_on_nonempty split: list.splits)

lemma queryDepositAddress_response:
  assumes "loadMarkets h = Inr ()" and "currency h code = Inr cur" and "\<not> nullish cur"
    and "privatePost_Address h method' (extend (Obj [(''currency'', get cur ''id'')]) params)
           = Inr response"
  shows "queryDepositAddress h method' code params =
     (let address = safeString h response ''addr'' Undefined in
      if address \<noteq> Undefined \<and> 0 \<le> indexOf (ToString h address) ''address''
      then Inl (InvalidAddress (this_id @ '' queryDepositAddress '' @ ToString h address))
      else if code = Str ''XRP'' then
        (if address = Undefined then Inl TypeError
         else
           let parts = take 2 (split_on CHR ''/'' (ToString h address));
               address' = get (Arr (map Str parts)) ''0'';
               tag = get (Arr (map Str parts)) ''1''
           in Inr (Obj
             [(''currency'', cur),
              (''address'', address'),
              (''tag'', tag),
              (''status'', if address' \<noteq> Undefined then Str ''ok'' else Str ''none''),
              (''info'', response)]))
      else Inr (Obj
        [(''currency'', cur),
         (''address'', address),
         (''tag'', Undefined),
         (''status'', if address \<noteq> Undefined then Str ''ok'' else Str ''none''),
         (''info'', response)]))"
  using assms by (simp add: queryDepositAddress_def)

lemma indexed_0: "indexed (x # xs) ''0'' = Some x"
  by (simp add: indexed_def index_of_key_def digit_of_def)

lemma indexed_1: "indexed (x # y # xs) ''1'' = Some y"
  by (simp add: indexed_def index_of_key_def digit_of_def)

lemma indexed_1_none: "indexed [x] ''1'' = None"
  by (simp add: indexed_def index_of_key_def digit_of_def)

lemma take_2_split_on_first:
  "sep \<notin> set u
    \<Longrightarrow> take 2 (split_on sep (u @ sep # v)) = [u, takeWhile (\<lambda>c. c \<noteq> sep) v]"
proof -
  assume u: "sep \<notin> set u"
  have "split_on sep v = hd (split_on sep v) # tl (split_on sep v)"
    using split_on_nonempty [of sep v] by simp
  then obtain ps where "split_on sep v = takeWhile (\<lambda>c. c \<noteq> sep) v # ps"
    by (metis hd_split_on)
  with u show ?thesis
    by (simp add: split_on_first numeral_2_eq_2)
qed

lemma take_2_split_on_Cons: "\<exists>p ps. take 2 (split_on sep s) = p # ps"
  using split_on_nonempty [of sep s] by (cases "split_on sep s") (auto simp: numeral_2_eq_2)

text \<open>
  Claim C7. Once the currency is known and the endpoint has answered: when the address the
  response returns (its \<^verbatim>\<open>addr\<close> field, read as a string) contains \<^verbatim>\<open>address\<close>,
  \<^verbatim>\<open>queryDepositAddress\<close> raises InvalidAddress, the class behind the spec's
  InvalidAddressError. For the code \<^verbatim>\<open>'XRP'\<close> the value is split on \<^verbatim>\<open>/\<close>: the part before
  the first \<^verbatim>\<open>/\<close> is the address and the part after it, up to a second \<^verbatim>\<open>/\<close>, is the tag;
  without a \<^verbatim>\<open>/\<close> there is no tag. For any other code the address is the value and there
  is no tag. The status of every result is \<^verbatim>\<open>'ok'\<close> when its address is defined and
  \<^verbatim>\<open>'none'\<close> otherwise.
\<close>

theorem queryDepositAddress_normalizes:
  "loadMarkets h = Inr () \<and> currency h code = Inr cur \<and> \<not> nullish cur
    \<and> privatePost_Address h method' (extend (Obj [(''currency'', get cur ''id'')]) params)
        = Inr response
   \<longrightarrow>
   (let address = safeString h response ''addr'' Undefined;
        res = queryDepositAddress h method' code params
    in (address = Str a \<and> (\<exists>x y. a = x @ ''address'' @ y)
          \<longrightarrow> res = Inl (InvalidAddress (''gateio queryDepositAddress '' @ a)))
     \<and> (code = Str ''XRP'' \<and> address = Str (u @ ''/'' @ v) \<and> CHR ''/'' \<notin> set u
              \<and> \<not> (\<exists>x y. u @ ''/'' @ v = x @ ''address'' @ y)
          \<longrightarrow> field ''address'' res = Inr (Str u)
            \<and> field ''tag'' res = Inr (Str (takeWhile (\<lambda>c. c \<noteq> CHR ''/'') v))
            \<and> field ''status'' res = Inr (Str ''ok''))
     \<and> (code = Str ''XRP'' \<and> address = Str a \<and> CHR ''/'' \<notin> set a
              \<and> \<not> (\<exists>x y. a = x @ ''address'' @ y)
          \<longrightarrow> field ''address'' res = Inr (Str a)
            \<and> field ''tag'' res = Inr Undefined
            \<and> field ''status'' res = Inr (Str ''ok''))
     \<and> (code \<noteq> Str ''XRP'' \<and> address = Str a \<and> \<not> (\<exists>x y. a = x @ ''address'' @ y)
          \<longrightarrow> field ''address'' res = Inr (Str a)
            \<and> field ''tag'' res = Inr Undefined
            \<and> field ''status'' res = Inr (Str ''ok''))
     \<and> (code \<noteq> Str ''XRP'' \<and> address = Undefined
          \<longrightarrow> field ''address'' res = Inr Undefined
            \<and> field ''status'' res = Inr (Str ''none''))
     \<and> (case res of
          Inl e \<Rightarrow> True
        | Inr r \<Rightarrow>
            get r ''status'' = (if get r ''address'' \<noteq> Undefined then Str ''ok'' else Str ''none'')))"
proof (intro impI)
  assume a: "loadMarkets h = Inr () \<and> currency h code = Inr cur \<and> \<not> nullish cur
    \<and> privatePost_Address h method' (extend (Obj [(''currency'', get cur ''id'')]) params)
        = Inr response"
  then have eq: "queryDepositAddress h method' code params =
     (let address = safeString h response ''addr'' Undefined in
      if address \<noteq> Undefined \<and> 0 \<le> indexOf (ToString h address) ''address''
      then Inl (InvalidAddress (this_id @ '' queryDepositAddress '' @ ToString h address))
      else if code = Str ''XRP'' then
        (if address = Undefined then Inl TypeError
         else
           let parts = take 2 (split_on CHR ''/'' (ToString h address));
               address' = get (Arr (map Str parts)) ''0'';
               tag = get (Arr (map Str parts)) ''1''
           in Inr (Obj
             [(''currency'', cur),
              (''address'', address'),
              (''tag'', tag),
              (''status'', if address' \<noteq> Undefined then Str ''ok'' else Str ''none''),
              (''info'', response)]))
      else Inr (Obj
        [(''currency'', cur),
         (''address'', address),
         (''tag'', Undefined),
         (''status'', if address \<noteq> Undefined then Str ''ok'' else Str ''none''),
         (''info'', response)]))"
    by (simp add: queryDepositAddress_response)
  show "let address = safeString h response ''addr'' Undefined;
        res = queryDepositAddress h method' code params
    in (address = Str a \<and> (\<exists>x y. a = x @ ''address'' @ y)
          \<longrightarrow> res = Inl (InvalidAddress (''gateio queryDepositAddress '' @ a)))
     \<and> (code = Str ''XRP'' \<and> address = Str (u @ ''/'' @ v) \<and> CHR ''/'' \<notin> set u
              \<and> \<not> (\<exists>x y. u @ ''/'' @ v = x @ ''address'' @ y)
          \<longrightarrow> field ''address'' res = Inr (Str u)
            \<and> field ''tag'' res = Inr (Str (takeWhile (\<lambda>c. c \<noteq> CHR ''/'') v))
            \<and> field ''status'' res = Inr (Str ''ok''))
     \<and> (code = Str ''XRP'' \<and> address = Str a \<and> CHR ''/'' \<notin> set a
              \<and> \<not> (\<exists>x y. a = x @ ''address'' @ y)
          \<longrightarrow> field ''address'' res = Inr (Str a)
            \<and> field ''tag'' res = Inr Undefined
            \<and> field ''status'' res = Inr (Str ''ok''))
     \<and> (code \<noteq> Str ''XRP'' \<and> address = Str a \<and> \<not> (\<exists>x y. a = x @ ''address'' @ y)
          \<longrightarrow> field ''address'' res = Inr (Str a)
            \<and> field ''tag'' res = Inr Undefined
            \<and> field ''status'' res = Inr (Str ''ok''))
     \<and> (code \<noteq> Str ''XRP'' \<and> address = Undefined
          \<longrightarrow> field ''address'' res = Inr Undefined
            \<and> field ''status'' res = Inr (Str ''none''))
     \<and> (case res of
          Inl e \<Rightarrow> True
        | Inr r \<Rightarrow>
            get r ''status'' = (if get r ''address'' \<noteq> Undefined then Str ''ok'' else Str ''none''))"
    unfolding Let_def eq
  proof (intro conjI impI)
    obtain p ps where parts:
      "take 2 (split_on CHR ''/'' (ToString h (safeString h response ''addr'' Undefined))) = p # ps"
      using take_2_split_on_Cons by blast
    show "case (if safeString h response ''addr'' Undefined \<noteq> Undefined
         \<and> 0 \<le> indexOf (ToString h (safeString h response ''addr'' Undefined)) ''address''
      then Inl (InvalidAddress (this_id @ '' queryDepositAddress ''
                  @ ToString h (safeString h response ''addr'' Undefined)))
      else if code = Str ''XRP'' then
        (if safeString h response ''addr'' Undefined = Undefined then Inl TypeError
         else Inr (Obj
             [(''currency'', cur),
              (''address'', get (Arr (map Str (take 2 (split_on CHR ''/''
                   (ToString h (safeString h response ''addr'' Undefined)))))) ''0''),
              (''tag'', get (Arr (map Str (take 2 (split_on CHR ''/''
                   (ToString h (safeString h response ''addr'' Undefined)))))) ''1''),
              (''status'', if get (Arr (map Str (take 2 (split_on CHR ''/''
                   (ToString h (safeString h response ''addr'' Undefined)))))) ''0'' \<noteq> Undefined
                 then Str ''ok'' else Str ''none''),
              (''info'', response)]))
      else Inr (Obj
        [(''currency'', cur),
         (''address'', safeString h response ''addr'' Undefined),
         (''tag'', Undefined),
         (''status'', if safeString h response ''addr'' Undefined \<noteq> Undefined
                      then Str ''ok'' else Str ''none''),
         (''info'', response)])) of
          Inl e \<Rightarrow> True
        | Inr r \<Rightarrow>
            get r ''status'' = (if get r ''address'' \<noteq> Undefined then Str ''ok'' else Str ''none'')"
      by (simp add: parts indexed_0)
  qed (auto simp: field_def indexOf_found this_id_def take_2_split_on_first split_on_none
         indexed_0 indexed_1 indexed_1_none Array_prototype_def Object_prototype_def
         from_Object_def)
qed

theorem queryDepositAddress_normalizes_witness:
  "queryDepositAddress example_address_host ''Deposit'' (Str ''BTC'') (Obj [])
     = Inl (InvalidAddress ''gateio queryDepositAddress 1xrpaddresserror'')
   \<and> field ''address'' (queryDepositAddress example_address_host ''Deposit'' (Str ''XRP'') (Obj []))
     = Inr (Str ''rAddr123'')
   \<and> field ''tag'' (queryDepositAddress example_address_host ''Deposit'' (Str ''XRP'') (Obj []))
     = Inr (Str ''456'')
   \<and> field ''status'' (queryDepositAddress example_address_host ''Deposit'' (Str ''XRP'') (Obj []))
     = Inr (Str ''ok'')"
proof -
  let ?h = example_address_host
  let ?failed = "Obj [(''result'', Str ''true''), (''addr'', Str ''1xrpaddresserror'')]"
  let ?tagged = "Obj [(''result'', Str ''true''), (''addr'', Str ''rAddr123/456'')]"
  have loaded: "loadMarkets ?h = Inr ()"
    by (simp add: example_address_host_def example_host_def)
  have btc: "currency ?h (Str ''BTC'') = Inr (Obj [(''id'', Str ''btc'')])"
    and xrp: "currency ?h (Str ''XRP'') = Inr (Obj [(''id'', Str ''xrp'')])"
    by (simp_all add: example_address_host_def example_host_def)
  have failed: "privatePost_Address ?h ''Deposit''
      (extend (Obj [(''currency'', get (Obj [(''id'', Str ''btc'')]) ''id'')]) (Obj [])) = Inr ?failed"
    and tagged: "privatePost_Address ?h ''Deposit''
      (extend (Obj [(''currency'', get (Obj [(''id'', Str ''xrp'')]) ''id'')]) (Obj [])) = Inr ?tagged"
    by (simp_all add: privatePost_Address_def example_address_host_def example_host_def
          extend_def entries_of_def)
  have read: "safeString ?h ?failed ''addr'' Undefined = Str ''1xrpaddresserror''"
    "safeString ?h ?tagged ''addr'' Undefined = Str ''rAddr123/456''"
    by (simp_all add: safeString_def js_prop_def)
  have "''1xrpaddresserror'' = ''1xrp'' @ ''address'' @ ''error''"
    by simp
  then have sentinel: "\<exists>u v. ''1xrpaddresserror'' = u @ ''address'' @ v"
    by blast
  have "\<not> 0 \<le> indexOf ''rAddr123/456'' ''address''"
    by (simp add: indexOf_def)
  then have clean: "\<not> (\<exists>x y. ''rAddr123'' @ ''/'' @ ''456'' = x @ ''address'' @ y)"
    using indexOf_found [of "''rAddr123/456''" "''address''"] by simp
  from queryDepositAddress_normalizes [of ?h "Str ''BTC''" "Obj [(''id'', Str ''btc'')]"
      "''Deposit''" "Obj []" ?failed "''1xrpaddresserror''"] loaded btc failed read sentinel
  have 1: "queryDepositAddress ?h ''Deposit'' (Str ''BTC'') (Obj [])
     = Inl (InvalidAddress ''gateio queryDepositAddress 1xrpaddresserror'')"
    by (simp add: Let_def)
  from queryDepositAddress_normalizes [where h = ?h and code = "Str ''XRP''"
      and cur = "Obj [(''id'', Str ''xrp'')]" and method' = "''Deposit''" and params = "Obj []"
      and response = ?tagged and u = "''rAddr123''" and v = "''456''"]
    loaded xrp tagged read clean
  have 2: "field ''address'' (queryDepositAddress ?h ''Deposit'' (Str ''XRP'') (Obj []))
      = Inr (Str ''rAddr123'')
    \<and> field ''tag'' (queryDepositAddress ?h ''Deposit'' (Str ''XRP'') (Obj [])) = Inr (Str ''456'')
    \<and> field ''status'' (queryDepositAddress ?h ''Deposit'' (Str ''XRP'') (Obj [])) = Inr (Str ''ok'')"
    by (simp add: Let_def)
  from 1 2 show ?thesis by simp
qed

section \<open>C8: the request signer\<close>

lemma map_of_foldl_assign:
  "map_of (foldl (\<lambda>out (k, v). assign out k v) acc es) = map_of acc ++ map_of (rev es)"
proof (induction es arbitrary: acc)
  case Nil
  then show ?case by simp
next
  case (Cons e es)
  obtain k v where e: "e = (k, v)" by (cases e)
  have "map_of (foldl (\<lambda>out (k, v). assign out k v) acc (e # es))
      = map_of (assign acc k v) ++ map_of (rev es)"
    using Cons.IH [of "assign acc k v"] e by simp
  also have "\<dots> = map_of acc ++ map_of (rev (e # es))"
    by (simp add: map_of_assign e fun_eq_iff map_add_def split: option.splits)
  finally show ?case .
qed

lemma map_of_rev_entries:
  "map_of (rev (map ((\<lambda>k. (k, f k)) \<circ> g) xs)) k
     = (if k \<in> g ` set xs then Some (f k) else None)"
  by (induction xs) (auto simp: map_add_def split: option.splits)

lemma entries_of_Obj:
  "map_of (rev (entries_of (Obj kvs))) k = map_of kvs k"
proof -
  have "map_of (rev (entries_of (Obj kvs))) k
      = (if k \<in> fst ` set kvs then Some (get (Obj kvs) k) else None)"
    by (simp add: entries_of_def map_of_rev_entries)
  also have "\<dots> = map_of kvs k"
  proof (cases "map_of kvs k")
    case None
    then have "k \<notin> fst ` set kvs"
      by (simp add: map_of_eq_None_iff)
    with None show ?thesis by simp
  next
    case (Some v)
    then have "k \<in> fst ` set kvs"
      using map_of_eq_None_iff [of kvs k] by simp
    with Some show ?thesis by simp
  qed
  finally show ?thesis .
qed

lemma own_property_extend:
  "own_property (extend (Obj as) (Obj bs)) k
     = (case map_of bs k of Some v \<Rightarrow> Some v | None \<Rightarrow> map_of as k)"
  by (simp add: extend_def map_of_foldl_assign entries_of_Obj map_add_def split: option.splits)

text \<open>
  Claim C8. For a private request, \<^verbatim>\<open>sign\<close> fails with the AuthenticationError of
  \<^verbatim>\<open>checkRequiredCredentials\<close> when the API key or the secret is missing. Otherwise it
  returns a request whose body is \<^verbatim>\<open>urlencode\<close> of the non-path parameters extended with
  the nonce (every parameter with its value, and the nonce under \<^verbatim>\<open>nonce\<close> unless the
  parameters bring their own) and whose headers are the API key as \<^verbatim>\<open>Key\<close>, the hexadecimal
  HMAC-SHA512 of that body under the secret as \<^verbatim>\<open>Sign\<close>, and the form content type. For a
  public request the non-path parameters are appended to the URL as a query string when
  there are any, and \<^verbatim>\<open>body\<close> and \<^verbatim>\<open>headers\<close> are returned as they were passed
  (\<^verbatim>\<open>undefined\<close> by default).
\<close>

theorem sign_builds_request:
  "(api = ''private'' \<longrightarrow>
      (checkRequiredCredentials h \<noteq> None \<longleftrightarrow> \<not> truthy (apiKey h) \<or> \<not> truthy (secret h))
    \<and> (\<forall>e. checkRequiredCredentials h = Some e
          \<longrightarrow> sign h path api method' params headers body = Inl e
            \<and> kind_name e = ''AuthenticationError'')
    \<and> (checkRequiredCredentials h = None \<longrightarrow>
         (let query = omit params (extractParams h path);
              encoded = urlencode h (extend (Obj [(''nonce'', nonce h)]) query);
              res = sign h path api method' params headers body
          in field ''body'' res = Inr (Str encoded)
           \<and> field ''headers'' res
               = Inr (Obj [(''Key'', apiKey h),
                           (''Sign'', Str (hmac h encoded (secret h) ''sha512'')),
                           (''Content-Type'', Str ''application/x-www-form-urlencoded'')])
           \<and> field ''url'' res
               = Inr (Str (''https://data.gate.io/api2/1/private/'' @ implodeParams h path params))
           \<and> field ''method'' res = Inr method')))
   \<and> (\<forall>keys. api = ''public'' \<and> Object_keys (omit params (extractParams h path)) = Inr keys \<longrightarrow>
         (let query = omit params (extractParams h path);
              url = ''https://data.gate.io/api2/1/'' @ implodeParams h path params;
              res = sign h path api method' params headers body
          in field ''url'' res
               = Inr (Str (if keys \<noteq> [] then url @ ''?'' @ urlencode h query else url))
           \<and> field ''body'' res = Inr body
           \<and> field ''headers'' res = Inr headers
           \<and> field ''method'' res = Inr method'))
   \<and> (\<forall>ps. params = Obj ps \<longrightarrow>
         omit params (extractParams h path)
           = Obj (filter (\<lambda>(k, v). k \<notin> set (extractParams h path)) ps)
       \<and> Object_keys (omit params (extractParams h path))
           = Inr (map fst (filter (\<lambda>(k, v). k \<notin> set (extractParams h path)) ps)))
   \<and> (\<forall>qs k. own_property (extend (Obj [(''nonce'', nonce h)]) (Obj qs)) k
         = (case map_of qs k of
              Some v \<Rightarrow> Some v
            | None \<Rightarrow> if k = ''nonce'' then Some (nonce h) else None))"
  by (auto simp: sign_def checkRequiredCredentials_def field_def Let_def urls_api_def version_def
        own_property_extend split: option.splits)


theorem sign_builds_request_witness:
  "sign example_host ''balances'' ''private'' (Str ''POST'') (Obj []) Undefined Undefined
     = Inl (AuthenticationError ''gateio requires apiKey'')
   \<and> field ''body''
        (sign example_signing_host ''tradeHistory'' ''private'' (Str ''POST'')
           (Obj [(''currencyPair'', Str ''btc_usdt'')]) Undefined Undefined)
     = Inr (Str ''nonce=1514764800000&currencyPair=btc_usdt'')
   \<and> field ''headers''
        (sign example_signing_host ''tradeHistory'' ''private'' (Str ''POST'')
           (Obj [(''currencyPair'', Str ''btc_usdt'')]) Undefined Undefined)
     = Inr (Obj [(''Key'', Str ''key''),
                 (''Sign'', Str ''hmac(sha512,nonce=1514764800000&currencyPair=btc_usdt)''),
                 (''Content-Type'', Str ''application/x-www-form-urlencoded'')])
   \<and> field ''url''
        (sign example_signing_host ''tickers'' ''public'' (Str ''GET'')
           (Obj [(''limit'', Num (Fin 5))]) Undefined Undefined)
     = Inr (Str ''https://data.gate.io/api2/1/tickers?limit=5'')
   \<and> field ''body''
        (sign example_signing_host ''tickers'' ''public'' (Str ''GET'')
           (Obj [(''limit'', Num (Fin 5))]) Undefined Undefined)
     = Inr Undefined
   \<and> field ''headers''
        (sign example_signing_host ''tickers'' ''public'' (Str ''GET'')
           (Obj [(''limit'', Num (Fin 5))]) Undefined Undefined)
     = Inr Undefined"
proof -
  have missing: "checkRequiredCredentials example_host
      = Some (AuthenticationError ''gateio requires apiKey'')"
    by (simp add: checkRequiredCredentials_def example_host_def this_id_def)
  have present: "checkRequiredCredentials example_signing_host = None"
    by (simp add: checkRequiredCredentials_def example_signing_host_def example_host_def)
  have 1: "sign example_host ''balances'' ''private'' (Str ''POST'') (Obj []) Undefined Undefined
     = Inl (AuthenticationError ''gateio requires apiKey'')"
    using sign_builds_request [of "''private''" example_host "''balances''" "Str ''POST''"
        "Obj []" Undefined Undefined] missing
    by simp
  have 2: "field ''body''
        (sign example_signing_host ''tradeHistory'' ''private'' (Str ''POST'')
           (Obj [(''currencyPair'', Str ''btc_usdt'')]) Undefined Undefined)
     = Inr (Str ''nonce=1514764800000&currencyPair=btc_usdt'')
   \<and> field ''headers''
        (sign example_signing_host ''tradeHistory'' ''private'' (Str ''POST'')
           (Obj [(''currencyPair'', Str ''btc_usdt'')]) Undefined Undefined)
     = Inr (Obj [(''Key'', Str ''key''),
                 (''Sign'', Str ''hmac(sha512,nonce=1514764800000&currencyPair=btc_usdt)''),
                 (''Content-Type'', Str ''application/x-www-form-urlencoded'')])"
    using sign_builds_request [of "''private''" example_signing_host "''tradeHistory''"
        "Str ''POST''" "Obj [(''currencyPair'', Str ''btc_usdt'')]" Undefined Undefined] present
    by (simp add: Let_def example_signing_host_def example_host_def extend_def entries_of_def)
  have 3: "field ''url''
        (sign example_signing_host ''tickers'' ''public'' (Str ''GET'')
           (Obj [(''limit'', Num (Fin 5))]) Undefined Undefined)
     = Inr (Str ''https://data.gate.io/api2/1/tickers?limit=5'')
   \<and> field ''body''
        (sign example_signing_host ''tickers'' ''public'' (Str ''GET'')
           (Obj [(''limit'', Num (Fin 5))]) Undefined Undefined)
     = Inr Undefined
   \<and> field ''headers''
        (sign example_signing_host ''tickers'' ''public'' (Str ''GET'')
           (Obj [(''limit'', Num (Fin 5))]) Undefined Undefined)
     = Inr Undefined"
    using sign_builds_request [of "''public''" example_signing_host "''tickers''"
        "Str ''GET''" "Obj [(''limit'', Num (Fin 5))]" Undefined Undefined]
    by (simp add: Let_def example_signing_host_def example_host_def)
  from 1 2 3 show ?thesis by simp
qed

section \<open>C9: the balance entries\<close>

lemma js_parseFloat_Num: "\<exists>n. js_parseFloat h v = Num n"
  by (cases v) auto

lemma fetchBalance_loop_other:
  "fetchBalance_loop h balance cs acc = Inr result
    \<Longrightarrow> k \<notin> commonCurrencyCode h ` set cs
    \<Longrightarrow> map_of result k = map_of acc k"
  by (induction cs arbitrary: acc) (auto simp: Let_def map_of_assign split: sum.splits)

lemma fetchBalance_account_entry:
  assumes "fetchBalance_account h balance c = Inr entry"
  shows "get entry ''free''
           = (if listed balance ''available'' c
              then js_parseFloat h (get (get balance ''available'') c) else Num (Fin 0))"
    and "get entry ''used''
           = (if listed balance ''locked'' c
              then js_parseFloat h (get (get balance ''locked'') c) else Num (Fin 0))"
    and "get entry ''total''
           = Num (js_add (ToNumber h (get entry ''free'')) (ToNumber h (get entry ''used'')))"
proof -
  obtain f where f: "js_parseFloat h (get (get balance ''available'') c) = Num f"
    using js_parseFloat_Num by blast
  obtain u where u: "js_parseFloat h (get (get balance ''locked'') c) = Num u"
    using js_parseFloat_Num by blast
  from assms f u show "get entry ''free''
           = (if listed balance ''available'' c
              then js_parseFloat h (get (get balance ''available'') c) else Num (Fin 0))"
    by (auto simp: fetchBalance_account_def listed_def account_def Let_def sum_js_def
          split: sum.splits if_splits)
  from assms f u show "get entry ''used''
           = (if listed balance ''locked'' c
              then js_parseFloat h (get (get balance ''locked'') c) else Num (Fin 0))"
    by (auto simp: fetchBalance_account_def listed_def account_def Let_def sum_js_def
          split: sum.splits if_splits)
  from assms f u show "get entry ''total''
           = Num (js_add (ToNumber h (get entry ''free'')) (ToNumber h (get entry ''used'')))"
    by (auto simp: fetchBalance_account_def listed_def account_def Let_def sum_js_def js_plus_def
          js_add_zero split: sum.splits if_splits)
qed

lemma js_in_object: "is_object v \<Longrightarrow> \<exists>b. js_in k v = Inr b"
  by (cases v) auto

lemma fetchBalance_account_readable:
  assumes "readable_balance balance"
  shows "\<exists>entry. fetchBalance_account h balance c = Inr entry"
proof -
  from assms obtain a where a: "js_in ''available'' balance = Inr a"
    using js_in_object [of balance] by (auto simp: readable_balance_def)
  from assms obtain l where l: "js_in ''locked'' balance = Inr l"
    using js_in_object [of balance] by (auto simp: readable_balance_def)
  from assms a obtain fa where
    fa: "(if a then js_in c (get balance ''available'') else Inr False) = Inr fa"
    using js_in_object [of "get balance ''available''" c]
    by (cases a) (auto simp: readable_balance_def)
  from assms l obtain fl where
    fl: "(if l then js_in c (get balance ''locked'') else Inr False) = Inr fl"
    using js_in_object [of "get balance ''locked''" c]
    by (cases l) (auto simp: readable_balance_def)
  show ?thesis
    unfolding fetchBalance_account_def a l
    using fa fl by (simp add: Let_def)
qed

lemma fetchBalance_loop_readable:
  "readable_balance balance \<Longrightarrow> \<exists>result. fetchBalance_loop h balance cs acc = Inr result"
proof (induction cs arbitrary: acc)
  case Nil
  then show ?case by simp
next
  case (Cons c rest)
  then obtain entry where "fetchBalance_account h balance c = Inr entry"
    using fetchBalance_account_readable [of balance h c] by auto
  with Cons show ?case by (simp add: Let_def)
qed

lemma last_with_code_alone:
  assumes "c \<in> set cs"
    and "\<forall>c'\<in>set cs. commonCurrencyCode h c' = commonCurrencyCode h c \<longrightarrow> c' = c"
  shows "last_with_code h cs c = c"
proof -
  let ?same = "filter (\<lambda>c'. commonCurrencyCode h c' = commonCurrencyCode h c) cs"
  from assms(1) have "?same \<noteq> []"
    by (auto simp: filter_empty_conv)
  then have "last ?same \<in> set ?same"
    by (rule last_in_set)
  with assms(2) show ?thesis
    by (simp add: last_with_code_def)
qed

lemma fetchBalance_loop_owner:
  "fetchBalance_loop h balance cs acc = Inr result
    \<Longrightarrow> c \<in> set cs
    \<Longrightarrow> \<exists>entry. fetchBalance_account h balance (last_with_code h cs c) = Inr entry
          \<and> map_of result (commonCurrencyCode h c) = Some entry"
proof (induction cs arbitrary: acc c)
  case Nil
  then show ?case by simp
next
  case (Cons c0 rest)
  let ?same = "\<lambda>c'. commonCurrencyCode h c' = commonCurrencyCode h c"
  from Cons.prems(1) obtain e where
    e: "fetchBalance_account h balance c0 = Inr e"
    and loop: "fetchBalance_loop h balance rest (assign acc (commonCurrencyCode h c0) e) = Inr result"
    by (auto simp: Let_def split: sum.splits)
  show ?case
  proof (cases "filter ?same rest = []")
    case True
    then have none: "commonCurrencyCode h c \<notin> commonCurrencyCode h ` set rest"
      by (auto simp: filter_empty_conv)
    with Cons.prems(2) have c0: "c0 = c" by auto
    from True c0 have "last_with_code h (c0 # rest) c = c0"
      by (simp add: last_with_code_def)
    with fetchBalance_loop_other [OF loop none] e c0 show ?thesis
      by (simp add: map_of_assign)
  next
    case False
    then obtain c1 where c1: "c1 \<in> set rest" "commonCurrencyCode h c1 = commonCurrencyCode h c"
      by (auto simp: filter_empty_conv)
    from Cons.IH [OF loop c1(1)] obtain entry where
      entry: "fetchBalance_account h balance (last_with_code h rest c1) = Inr entry"
      and stored: "map_of result (commonCurrencyCode h c1) = Some entry"
      by blast
    from False c1(2) have "last_with_code h (c0 # rest) c = last_with_code h rest c1"
      by (simp add: last_with_code_def)
    with entry stored c1(2) show ?thesis by simp
  qed
qed

lemma fetchBalance_result_entries:
  assumes "fetchBalance_result h balance = Inr result"
    and "Object_keys (currencies h) = Inr cs"
    and "c \<in> set cs"
  shows "balance_entry h balance (last_with_code h cs c) (get result (commonCurrencyCode h c))"
proof -
  from assms(1,2) obtain kvs where
    result: "result = Obj kvs"
    and loop: "fetchBalance_loop h balance cs [(''info'', balance)] = Inr kvs"
    by (auto simp: fetchBalance_result_def split: sum.splits)
  from fetchBalance_loop_owner [OF loop assms(3)] obtain entry where
    entry: "fetchBalance_account h balance (last_with_code h cs c) = Inr entry"
    and stored: "map_of kvs (commonCurrencyCode h c) = Some entry"
    by blast
  from stored result have "get result (commonCurrencyCode h c) = entry"
    by simp
  with fetchBalance_account_entry [OF entry] show ?thesis
    by (simp add: balance_entry_def Let_def)
qed

lemma fetchBalance_result_readable:
  assumes "readable_balance balance" and "Object_keys (currencies h) = Inr cs"
  shows "\<exists>result. fetchBalance_result h balance = Inr result"
proof -
  obtain kvs where "fetchBalance_loop h balance cs [(''info'', balance)] = Inr kvs"
    using fetchBalance_loop_readable [OF assms(1), of h cs "[(''info'', balance)]"] by auto
  with assms(2) show ?thesis
    by (simp add: fetchBalance_result_def)
qed

text \<open>
  Claim C9. When the markets load and the balance endpoint answers with an object whose
  \<^verbatim>\<open>available\<close> and \<^verbatim>\<open>locked\<close> properties, where present, are objects (\<open>readable_balance\<close>),
  \<^verbatim>\<open>fetchBalance\<close> returns what the base class's \<^verbatim>\<open>parseBalance\<close> makes of an object \<open>result\<close>
  that holds, for every known currency, an entry under the currency's code. The entries are
  keyed by code, so that entry is the one of the last known currency with that code
  (\<open>last_with_code\<close>), which is the currency itself when no other known currency shares its
  code: \<^verbatim>\<open>free\<close> is the value the \<^verbatim>\<open>available\<close> sub-map lists for it (as \<^verbatim>\<open>parseFloat\<close> reads it)
  and 0 when it lists none, \<^verbatim>\<open>used\<close> likewise from \<^verbatim>\<open>locked\<close>, and \<^verbatim>\<open>total = free + used\<close>; a
  currency that neither sub-map lists gets three zeros (\<open>balance_entry\<close>). And whatever
  \<^verbatim>\<open>fetchBalance\<close> returns is made of such an object.
\<close>

theorem fetchBalance_entries:
  "(loadMarkets h = Inr () \<and> privatePostBalances h = Inr balance \<and> readable_balance balance
      \<and> Object_keys (currencies h) = Inr cs
    \<longrightarrow> (\<exists>result. fetchBalance h params = Inr (parseBalance h result)
          \<and> (\<forall>c\<in>set cs.
                balance_entry h balance (last_with_code h cs c)
                  (get result (commonCurrencyCode h c)))))
   \<and> (c \<in> set cs
      \<and> (\<forall>c'\<in>set cs. commonCurrencyCode h c' = commonCurrencyCode h c \<longrightarrow> c' = c)
    \<longrightarrow> last_with_code h cs c = c)
   \<and> (fetchBalance h params = Inr out
    \<longrightarrow> (\<exists>response known result.
           privatePostBalances h = Inr response
         \<and> Object_keys (currencies h) = Inr known
         \<and> out = parseBalance h result
         \<and> (\<forall>c\<in>set known.
               balance_entry h response (last_with_code h known c)
                 (get result (commonCurrencyCode h c)))))"
proof (intro conjI impI)
  assume a: "loadMarkets h = Inr () \<and> privatePostBalances h = Inr balance
      \<and> readable_balance balance \<and> Object_keys (currencies h) = Inr cs"
  then obtain result where result: "fetchBalance_result h balance = Inr result"
    using fetchBalance_result_readable [of balance h cs] by auto
  with a have "fetchBalance h params = Inr (parseBalance h result)"
    by (simp add: fetchBalance_def)
  moreover from a result have "\<forall>c\<in>set cs.
      balance_entry h balance (last_with_code h cs c) (get result (commonCurrencyCode h c))"
    using fetchBalance_result_entries [of h balance result cs] by blast
  ultimately show "\<exists>result. fetchBalance h params = Inr (parseBalance h result)
          \<and> (\<forall>c\<in>set cs.
                balance_entry h balance (last_with_code h cs c)
                  (get result (commonCurrencyCode h c)))"
    by blast
next
  assume "c \<in> set cs
      \<and> (\<forall>c'\<in>set cs. commonCurrencyCode h c' = commonCurrencyCode h c \<longrightarrow> c' = c)"
  then show "last_with_code h cs c = c"
    using last_with_code_alone [of c cs h] by blast
next
  assume "fetchBalance h params = Inr out"
  then obtain response result where
    response: "privatePostBalances h = Inr response"
    and result: "fetchBalance_result h response = Inr result"
    and out: "out = parseBalance h result"
    by (auto simp: fetchBalance_def split: sum.splits)
  from result obtain known where known: "Object_keys (currencies h) = Inr known"
    by (auto simp: fetchBalance_result_def split: sum.splits)
  from result known have "\<forall>c\<in>set known.
      balance_entry h response (last_with_code h known c) (get result (commonCurrencyCode h c))"
    using fetchBalance_result_entries [of h response result known] by blast
  with response known out show "\<exists>response known result.
           privatePostBalances h = Inr response
         \<and> Object_keys (currencies h) = Inr known
         \<and> out = parseBalance h result
         \<and> (\<forall>c\<in>set known.
               balance_entry h response (last_with_code h known c)
                 (get result (commonCurrencyCode h c)))"
    by blast
qed

theorem fetchBalance_entries_witness:
  "field ''free'' (field ''BTC'' (fetchBalance example_balance_host (Obj [])))
     = Inr (Num (Fin (1 / 2)))
   \<and> field ''used'' (field ''BTC'' (fetchBalance example_balance_host (Obj [])))
     = Inr (Num (Fin (1 / 4)))
   \<and> field ''total'' (field ''BTC'' (fetchBalance example_balance_host (Obj [])))
     = Inr (Num (Fin (3 / 4)))
   \<and> field ''free'' (field ''ETH'' (fetchBalance example_balance_host (Obj [])))
     = Inr (Num (Fin 0))
   \<and> field ''used'' (field ''ETH'' (fetchBalance example_balance_host (Obj [])))
     = Inr (Num (Fin 0))
   \<and> field ''total'' (field ''ETH'' (fetchBalance example_balance_host (Obj [])))
     = Inr (Num (Fin 0))"
proof -
  let ?h = example_balance_host
  have loaded: "loadMarkets ?h = Inr ()"
    by (simp add: example_balance_host_def example_host_def)
  have response: "privatePostBalances ?h = Inr example_balance"
    by (simp add: example_balance_host_def example_host_def)
  have keys: "Object_keys (currencies ?h) = Inr [''BTC'', ''ETH'']"
    by (simp add: example_balance_host_def example_host_def)
  have readable: "readable_balance example_balance"
    by (simp add: readable_balance_def example_balance_def has_property_def)
  have code: "commonCurrencyCode ?h = (\<lambda>c. c)"
    by (simp add: example_balance_host_def example_host_def)
  have parsed: "parseBalance ?h = (\<lambda>result. result)"
    by (simp add: example_balance_host_def example_host_def)
  have owner: "last_with_code ?h [''BTC'', ''ETH''] ''BTC'' = ''BTC''"
    "last_with_code ?h [''BTC'', ''ETH''] ''ETH'' = ''ETH''"
    by (simp_all add: last_with_code_def code)
  have btc: "listed example_balance ''available'' ''BTC''" "listed example_balance ''locked'' ''BTC''"
    by (simp_all add: listed_def example_balance_def has_property_def)
  have eth: "\<not> listed example_balance ''available'' ''ETH''"
    "\<not> listed example_balance ''locked'' ''ETH''"
    by (simp_all add: listed_def example_balance_def has_property_def from_Object_def
          Object_prototype_def)
  have amounts:
    "js_parseFloat ?h (get (get example_balance ''available'') ''BTC'') = Num (Fin (1 / 2))"
    "js_parseFloat ?h (get (get example_balance ''locked'') ''BTC'') = Num (Fin (1 / 4))"
    by (simp_all add: example_balance_def example_balance_host_def example_host_def)
  from fetchBalance_entries [where h = ?h and balance = example_balance
      and cs = "[''BTC'', ''ETH'']" and params = "Obj []"] loaded response keys readable
  obtain r where r: "fetchBalance ?h (Obj []) = Inr r"
    and entries: "balance_entry ?h example_balance ''BTC'' (get r ''BTC'')"
      "balance_entry ?h example_balance ''ETH'' (get r ''ETH'')"
    by (auto simp: code parsed owner)
  from entries(1) btc amounts have 1: "get (get r ''BTC'') ''free'' = Num (Fin (1 / 2))
      \<and> get (get r ''BTC'') ''used'' = Num (Fin (1 / 4))
      \<and> get (get r ''BTC'') ''total'' = Num (Fin (3 / 4))"
    by (simp add: balance_entry_def Let_def)
  from entries(2) eth have 2: "get (get r ''ETH'') ''free'' = Num (Fin 0)
      \<and> get (get r ''ETH'') ''used'' = Num (Fin 0)
      \<and> get (get r ''ETH'') ''total'' = Num (Fin 0)"
    by (simp add: balance_entry_def Let_def)
  from 1 2 r show ?thesis by (simp add: field_def)
qed

text \<open>
  The claim as it is written fails where two known currencies share a code. \<^verbatim>\<open>XBT\<close> is a
  known currency, its code is \<^verbatim>\<open>BTC\<close> and the \<^verbatim>\<open>available\<close> sub-map lists 0.5 for it; the
  entry under its code is the one written later for \<^verbatim>\<open>BTC\<close>, which no sub-map lists, and
  its \<^verbatim>\<open>free\<close> is 0.
\<close>

theorem fetchBalance_entries_counterexample:
  "Object_keys (currencies example_alias_host) = Inr [''XBT'', ''BTC'']
   \<and> commonCurrencyCode example_alias_host ''XBT'' = ''BTC''
   \<and> privatePostBalances example_alias_host = Inr example_alias_balance
   \<and> listed example_alias_balance ''available'' ''XBT''
   \<and> js_parseFloat example_alias_host (get (get example_alias_balance ''available'') ''XBT'')
       = Num (Fin (1 / 2))
   \<and> field ''free'' (field ''BTC'' (fetchBalance example_alias_host (Obj [])))
       = Inr (Num (Fin 0))"
  by (simp add: example_alias_host_def example_alias_balance_def example_host_def listed_def
        has_property_def from_Object_def Object_prototype_def fetchBalance_def
        fetchBalance_result_def fetchBalance_account_def account_def sum_js_def js_plus_def
        field_def Let_def)

section \<open>C10: the private trade history needs a symbol\<close>

text \<open>
  Claim C10. Called without a symbol, the \<^verbatim>\<open>fetchMyTrades\<close> of the class raises
  ExchangeError, and it has made no call by then: neither \<^verbatim>\<open>loadMarkets\<close> nor the HTTP
  request.
\<close>

theorem fetchMyTrades_requires_symbol:
  "fetchMyTrades h Undefined since limit params
     = ([], Inl (ExchangeError ''gateio fetchMyTrades requires symbol param''))"
  by (simp add: fetchMyTrades_def this_id_def)

theorem fetchMyTrades_requires_symbol_witness:
  "fst (fetchMyTrades example_host Undefined Undefined Undefined (Obj [])) = []
   \<and> kind_name (projl (snd (fetchMyTrades example_host Undefined Undefined Undefined (Obj []))))
       = ''ExchangeError''
   \<and> fst (fetchMyTrades example_host (Str ''BTC/USDT'') Undefined Undefined (Obj []))
       = [LoadMarkets, PrivatePostTradeHistory (Obj [(''currencyPair'', Str ''BTC/USDT'')])]"
  using fetchMyTrades_requires_symbol [of example_host Undefined Undefined "Obj []"]
  by (simp add: fetchMyTrades_def example_host_def extend_def entries_of_def)


end
